theory Spec2Isabelle
  imports Main "HOL-Library.AList" "HOL-Library.Sublist"
begin

section \<open>Python strings\<close>

text \<open>
  Both scripts are Python. A Python \<open>str\<close> is modelled as a HOL \<open>string\<close>. The
  library functions the scripts call on strings are written out as recursive functions
  where they are first needed: here \<open>str.strip\<close>, \<open>str.split\<close> with and without an
  argument, and \<open>re.sub\<close> and \<open>re.split\<close> for the two patterns the scripts use.
\<close>

text \<open>
  \<open>str.isspace\<close> on one character. Python uses the same classification for
  \<open>str.strip()\<close>, \<open>str.split()\<close> and the regular expression class \<open>\s\<close> on \<open>str\<close>
  patterns: tab, line feed, vertical tab, form feed, carriage return, the four
  separators 28 to 31, space, and (in Latin-1) 133 and 160.
\<close>

definition py_isspace :: "char \<Rightarrow> bool" where
  "py_isspace c =
     (let n = (of_char c :: nat)
      in (9 \<le> n \<and> n \<le> 13) \<or> (28 \<le> n \<and> n \<le> 32) \<or> n = 133 \<or> n = 160)"

definition py_strip :: "string \<Rightarrow> string" where
  "py_strip s = rev (dropWhile py_isspace (rev (dropWhile py_isspace s)))"


text \<open>
  \<open>s.split()\<close>: the maximal runs of non-whitespace characters, in order. The first
  argument is the token being read.
\<close>

fun py_split :: "string \<Rightarrow> string \<Rightarrow> string list" where
  "py_split cur [] = (if cur = [] then [] else [cur])"
| "py_split cur (c # cs) =
     (if py_isspace c
      then (if cur = [] then py_split [] cs else cur # py_split [] cs)
      else py_split (cur @ [c]) cs)"


text \<open>
  \<open>re.sub(r"\*", "", s)\<close>: scanning from the left, every match of the pattern (one
  asterisk) is replaced by the empty string and every other character is copied.
\<close>

fun re_sub_asterisk :: "string \<Rightarrow> string" where
  "re_sub_asterisk [] = []"
| "re_sub_asterisk (c # cs) =
     (if c = CHR ''*'' then [] @ re_sub_asterisk cs else c # re_sub_asterisk cs)"


section \<open>The DIMM pull script\<close>

subsection \<open>Serial numbers from the database\<close>

text \<open>
  \<open>sql_list\<close> is the list of rows of the query, each a tuple of one column; a tuple of
  one string is modelled by the string. \<open>cleaned_sql_list\<close> removes the asterisks of
  every serial, and \<open>serial_list\<close> (the concatenation of the one-element tuples) is the
  same list of strings.
\<close>

definition cleaned_sql_list :: "string list \<Rightarrow> string list" where
  "cleaned_sql_list sql_list = map re_sub_asterisk sql_list"

definition serial_list :: "string list \<Rightarrow> string list" where
  "serial_list sql_list = concat (map (\<lambda>element. [element]) (cleaned_sql_list sql_list))"

subsection \<open>Lines of the DIMM data file\<close>






section \<open>The Redfish script: the input file\<close>

datatype error =
    SystemExit "nat option"
  | KeyError string
  | AttributeError
  | TypeError
  | IndexError
  | OperationalError
  | RequestException

text \<open>
  The loop of the main block over the lines of \<open>KEY.txt\<close>. A line read from a file keeps
  its line feed. The accumulator holds \<open>ip_list\<close> and \<open>ix_serial_list\<close>;
  \<open>sys.exit(1)\<close> is the error \<open>SystemExit (Some 1)\<close>.
\<close>

definition is_comment_line :: "string \<Rightarrow> bool" where
  "is_comment_line line = (length line > 0 \<and> line ! 0 = CHR ''#'')"

definition line_tokens :: "string \<Rightarrow> string list" where
  "line_tokens line = py_split [] (py_strip line)"

fun parse_input_file ::
  "string list \<times> string list \<Rightarrow> string list \<Rightarrow> error + (string list \<times> string list)" where
  "parse_input_file (ip_list, ix_serial_list) [] = Inr (ip_list, ix_serial_list)"
| "parse_input_file (ip_list, ix_serial_list) (line # rest) =
     (if is_comment_line line then parse_input_file (ip_list, ix_serial_list) rest
      else (let tokens = line_tokens line
            in if length tokens \<noteq> 2 then Inl (SystemExit (Some 1))
               else parse_input_file
                      (ip_list @ [tokens ! 0], ix_serial_list @ [tokens ! 1]) rest))"


section \<open>The Redfish script: the STD database\<close>

text \<open>
  \<open>str.lower\<close> and \<open>str.upper\<close> on the characters a \<open>string\<close> holds, the code
  points 0 to 255 (Latin-1). \<open>lower\<close> maps the 26 capital letters and the 30 accented
  capitals 192 to 222 (without the multiplication sign 215) to the letter 32 places
  further; every other character is left as it is.
\<close>

definition py_lower_char :: "char \<Rightarrow> char" where
  "py_lower_char c =
     (case map_of
        (zip (''ABCDEFGHIJKLMNOPQRSTUVWXYZ'' @
          [CHR 0xC0, CHR 0xC1, CHR 0xC2, CHR 0xC3, CHR 0xC4, CHR 0xC5, CHR 0xC6, CHR 0xC7,
           CHR 0xC8, CHR 0xC9, CHR 0xCA, CHR 0xCB, CHR 0xCC, CHR 0xCD, CHR 0xCE, CHR 0xCF,
           CHR 0xD0, CHR 0xD1, CHR 0xD2, CHR 0xD3, CHR 0xD4, CHR 0xD5, CHR 0xD6, CHR 0xD8,
           CHR 0xD9, CHR 0xDA, CHR 0xDB, CHR 0xDC, CHR 0xDD, CHR 0xDE])
         (''abcdefghijklmnopqrstuvwxyz'' @
          [CHR 0xE0, CHR 0xE1, CHR 0xE2, CHR 0xE3, CHR 0xE4, CHR 0xE5, CHR 0xE6, CHR 0xE7,
           CHR 0xE8, CHR 0xE9, CHR 0xEA, CHR 0xEB, CHR 0xEC, CHR 0xED, CHR 0xEE, CHR 0xEF,
           CHR 0xF0, CHR 0xF1, CHR 0xF2, CHR 0xF3, CHR 0xF4, CHR 0xF5, CHR 0xF6, CHR 0xF8,
           CHR 0xF9, CHR 0xFA, CHR 0xFB, CHR 0xFC, CHR 0xFD, CHR 0xFE])) c of
        Some l \<Rightarrow> l
      | None \<Rightarrow> c)"

text \<open>
  \<open>upper\<close> maps the 26 small letters and the 30 accented small letters 224 to 254
  (without the division sign 247) to the letter 32 places before, and the sharp s
  (223) to the two letters \<open>SS\<close>, so the result can be longer than the argument. The
  capitals of the micro sign (181) and of y with diaeresis (255) are the code points 924
  and 376, which a \<open>char\<close> cannot hold: these two characters are left as they are, one
  character each as in Python.
\<close>

definition py_upper_char :: "char \<Rightarrow> string" where
  "py_upper_char c =
     (if c = CHR 0xDF then ''SS''
      else (case map_of
        (zip (''abcdefghijklmnopqrstuvwxyz'' @
          [CHR 0xE0, CHR 0xE1, CHR 0xE2, CHR 0xE3, CHR 0xE4, CHR 0xE5, CHR 0xE6, CHR 0xE7,
           CHR 0xE8, CHR 0xE9, CHR 0xEA, CHR 0xEB, CHR 0xEC, CHR 0xED, CHR 0xEE, CHR 0xEF,
           CHR 0xF0, CHR 0xF1, CHR 0xF2, CHR 0xF3, CHR 0xF4, CHR 0xF5, CHR 0xF6, CHR 0xF8,
           CHR 0xF9, CHR 0xFA, CHR 0xFB, CHR 0xFC, CHR 0xFD, CHR 0xFE])
         (''ABCDEFGHIJKLMNOPQRSTUVWXYZ'' @
          [CHR 0xC0, CHR 0xC1, CHR 0xC2, CHR 0xC3, CHR 0xC4, CHR 0xC5, CHR 0xC6, CHR 0xC7,
           CHR 0xC8, CHR 0xC9, CHR 0xCA, CHR 0xCB, CHR 0xCC, CHR 0xCD, CHR 0xCE, CHR 0xCF,
           CHR 0xD0, CHR 0xD1, CHR 0xD2, CHR 0xD3, CHR 0xD4, CHR 0xD5, CHR 0xD6, CHR 0xD8,
           CHR 0xD9, CHR 0xDA, CHR 0xDB, CHR 0xDC, CHR 0xDD, CHR 0xDE])) c of
        Some u \<Rightarrow> [u]
      | None \<Rightarrow> [c]))"

definition py_lower :: "string \<Rightarrow> string" where
  "py_lower s = map py_lower_char s"

definition py_upper :: "string \<Rightarrow> string" where
  "py_upper s = concat (map py_upper_char s)"

subsection \<open>The translation tables\<close>

definition MANUFACTURER_DICT :: "(string \<times> string) list" where
  "MANUFACTURER_DICT =
     [(''ixsystems'', ''ix systems''),
      (''lenovo'', ''lenovo''),
      (''intel(r) corporation'', ''intel''),
      (''samsung'', ''samsung''),
      (''micron'', ''micron''),
      (''micron technology'', ''micron''),
      (''acbe'', ''acbel''),
      (''grea'', ''great wall''),
      (''mellanox technologies'', ''mellanox technologies''),
      (''sk hynix'', ''sk hynix korea''),
      (''hynix'', ''hynix''),
      (''broadcom'', ''broadcom''),
      (''broadcom limited'', ''broadcom'')]"

definition TYPE_DICT :: "(string \<times> string) list" where
  "TYPE_DICT =
     [(''cpu'', ''cpu''),
      (''memory'', ''memory''),
      (''nic'', ''nic''),
      (''ssd'', ''ssd m.2''),
      (''psu'', ''power supply''),
      (''motherboard'', ''motherboard''),
      (''password'', ''unique password'')]"

subsection \<open>Tables and rows\<close>

text \<open>
  The rows of \<open>production_part\<close> and \<open>production_mac\<close> with the columns the script
  names. Row ids are numbers; the strings are compared by the database as text.
\<close>

record part_row =
  p_id :: nat
  p_system_id :: nat
  p_serial :: string
  p_model :: string
  p_type_id :: nat
  p_manufacturer_id :: nat
  p_intel_sa_number :: string
  p_support_number :: string
  p_rma :: bool
  p_revision :: string
  p_part_revision :: string

record mac_row =
  m_id :: nat
  m_system_id :: nat
  m_name :: string
  m_mac :: string

text \<open>
  The five tables the script reads or writes. The three reference tables are lists of
  (id, name) pairs: \<open>production_system\<close> by \<open>system_serial\<close>, the other two by
  \<open>lower_name\<close>.
\<close>

record tables =
  production_system :: "(nat \<times> string) list"
  production_manufacturer :: "(nat \<times> string) list"
  production_type :: "(nat \<times> string) list"
  production_part :: "part_row list"
  production_mac :: "mac_row list"

text \<open>
  The database server together with the \<open>StdDatabase\<close> object of the script.
  \<open>stored\<close> is what the server holds durably, \<open>working\<close> what the open transaction of
  the connection sees: \<open>commit\<close> copies \<open>working\<close> to \<open>stored\<close>, \<open>rollback\<close> copies
  \<open>stored\<close> to \<open>working\<close>. The two sequences give the ids of inserted rows.
  \<open>reachable\<close> says whether \<open>psycopg.connect\<close> succeeds. \<open>budget\<close> is the number of
  statements the server still executes before it answers with an error (\<open>None\<close>: it
  never does), so that every point of failure of a run is a state of the model.
  \<open>insert_log\<close> is the dictionary of the object, in insertion order. \<open>commits\<close>
  counts the transactions the server has committed.
\<close>

record std_state =
  stored :: tables
  working :: tables
  part_id_seq :: nat
  mac_id_seq :: nat
  reachable :: bool
  conn_closed :: bool
  budget :: "nat option"
  commits :: nat
  insert_log :: "(string \<times> nat list) list"

subsection \<open>Exceptions and state\<close>

text \<open>
  A method of the object is a function from the state to a result and the new state;
  the result is \<open>Inl\<close> of the exception raised or \<open>Inr\<close> of the value returned. The
  state is returned in both cases: what a method did before it raised stays done.
\<close>

type_synonym 'a action = "std_state \<Rightarrow> (error + 'a) \<times> std_state"

definition succeed :: "'a \<Rightarrow> 'a action" where
  "succeed x s = (Inr x, s)"

definition raise :: "error \<Rightarrow> 'a action" where
  "raise e s = (Inl e, s)"

definition and_then :: "'a action \<Rightarrow> ('a \<Rightarrow> 'b action) \<Rightarrow> 'b action" where
  "and_then m f s = (case m s of (Inl e, s') \<Rightarrow> (Inl e, s') | (Inr x, s') \<Rightarrow> f x s')"

text \<open>A \<open>for\<close> loop whose body may raise: the first exception ends the loop.\<close>

fun for_each :: "('a \<Rightarrow> 'b action) \<Rightarrow> 'a list \<Rightarrow> unit action" where
  "for_each f [] s = (Inr (), s)"
| "for_each f (x # xs) s =
     (case f x s of (Inl e, s') \<Rightarrow> (Inl e, s') | (Inr _, s') \<Rightarrow> for_each f xs s')"

subsection \<open>Connection, transaction, statements\<close>

text \<open>
  \<open>StdDatabase.__init__\<close>: a failed connection prints the error and calls
  \<open>sys.exit()\<close>; otherwise the cursor is opened and the insert log is empty.
\<close>

definition StdDatabase_init :: "unit action" where
  "StdDatabase_init s =
     (if reachable s
      then (Inr (), s\<lparr>working := stored s, conn_closed := False, insert_log := []\<rparr>)
      else (Inl (SystemExit None), s))"

text \<open>
  \<open>commit\<close> and \<open>rollback\<close> of the connection. On a closed connection psycopg raises
  \<open>OperationalError\<close>. \<open>COMMIT\<close> is a statement the server may fail.
\<close>

definition commit :: "unit action" where
  "commit s =
     (if conn_closed s then (Inl OperationalError, s)
      else (case budget s of
              Some 0 \<Rightarrow> (Inl OperationalError, s)
            | Some (Suc n) \<Rightarrow>
                (Inr (), s\<lparr>stored := working s, budget := Some n, commits := Suc (commits s)\<rparr>)
            | None \<Rightarrow> (Inr (), s\<lparr>stored := working s, commits := Suc (commits s)\<rparr>)))"

definition rollback :: "unit action" where
  "rollback s =
     (if conn_closed s then (Inl OperationalError, s)
      else (Inr (), s\<lparr>working := stored s\<rparr>))"

text \<open>\<open>StdDatabase.close(commit=False)\<close>; closing a closed connection does nothing.\<close>

definition close :: "bool \<Rightarrow> unit action" where
  "close do_commit =
     and_then (if do_commit then commit else rollback)
       (\<lambda>_ s. (Inr (), s\<lparr>conn_closed := True\<rparr>))"

text \<open>
  \<open>with StdDatabase() as std: body\<close>. \<open>__exit__\<close> calls \<open>close()\<close> whether the body
  raised or not, and returns nothing, so an exception of the body goes on; an exception
  raised by \<open>__exit__\<close> itself replaces it.
\<close>

definition with_exit :: "'a action \<Rightarrow> 'a action" where
  "with_exit body s =
     (case body s of
        (r, s') \<Rightarrow> (case close False s' of
                       (Inl e, s'') \<Rightarrow> (Inl e, s'')
                     | (Inr _, s'') \<Rightarrow> (r, s'')))"

text \<open>
  The seven SQL statements of the script with their parameters, in the order of the
  \<open>%s\<close> placeholders. Every statement selects or returns the column \<open>id\<close> only, so
  the rows of a result are ids.
\<close>

datatype statement =
    Select_system string
  | Select_manufacturer string
  | Select_type string
  | Select_part nat string string
  | Insert_part nat string string nat nat string string bool string string
  | Select_mac nat string
  | Insert_mac nat string string

definition ids_where :: "(string \<Rightarrow> bool) \<Rightarrow> (nat \<times> string) list \<Rightarrow> nat list" where
  "ids_where p rows = map fst (filter (\<lambda>row. p (snd row)) rows)"

definition part_matches :: "nat \<Rightarrow> string \<Rightarrow> string \<Rightarrow> part_row \<Rightarrow> bool" where
  "part_matches system_id m s row =
     (p_system_id row = system_id \<and> p_model row = m \<and> p_serial row = s)"

definition mac_matches :: "nat \<Rightarrow> string \<Rightarrow> mac_row \<Rightarrow> bool" where
  "mac_matches system_id n row = (m_system_id row = system_id \<and> m_name row = n)"

text \<open>
  What the server does with a statement inside the transaction. The two selects on
  \<open>production_system\<close> and \<open>production_manufacturer\<close> end with \<open>LIMIT 1\<close>. The
  column list of the insert into \<open>production_part\<close> is (system_id, serial, model,
  type_id, manufacturer_id, intel_sa_number, support_number, rma, revision,
  p_revision); \<open>RETURNING id\<close> gives the id the sequence assigned.
\<close>

fun run_statement :: "statement \<Rightarrow> std_state \<Rightarrow> nat list \<times> std_state" where
  "run_statement (Select_system system_serial) s =
     (take 1 (ids_where (\<lambda>v. v = system_serial) (production_system (working s))), s)"
| "run_statement (Select_manufacturer lower_name) s =
     (take 1 (ids_where (\<lambda>v. v = lower_name) (production_manufacturer (working s))), s)"
| "run_statement (Select_type lower_name) s =
     (ids_where (\<lambda>v. v = lower_name) (production_type (working s)), s)"
| "run_statement (Select_part system_id m sn) s =
     (map p_id (filter (part_matches system_id m sn) (production_part (working s))), s)"
| "run_statement (Insert_part system_id sn m type_id manufacturer_id isa supp r rv prv) s =
     ([part_id_seq s],
      s\<lparr>working := (working s)\<lparr>production_part := production_part (working s) @
           [\<lparr>p_id = part_id_seq s, p_system_id = system_id, p_serial = sn,
             p_model = m, p_type_id = type_id, p_manufacturer_id = manufacturer_id,
             p_intel_sa_number = isa, p_support_number = supp, p_rma = r,
             p_revision = rv, p_part_revision = prv\<rparr>]\<rparr>,
        part_id_seq := Suc (part_id_seq s)\<rparr>)"
| "run_statement (Select_mac system_id n) s =
     (map m_id (filter (mac_matches system_id n) (production_mac (working s))), s)"
| "run_statement (Insert_mac system_id n a) s =
     ([mac_id_seq s],
      s\<lparr>working := (working s)\<lparr>production_mac := production_mac (working s) @
           [\<lparr>m_id = mac_id_seq s, m_system_id = system_id, m_name = n,
             m_mac = a\<rparr>]\<rparr>,
        mac_id_seq := Suc (mac_id_seq s)\<rparr>)"

text \<open>
  \<open>cursor.execute\<close>: \<open>None\<close> stands for a \<open>psycopg.Error\<close>, raised on a closed
  connection and when the server fails the statement.
\<close>

definition cursor_execute :: "statement \<Rightarrow> std_state \<Rightarrow> nat list option \<times> std_state" where
  "cursor_execute q s =
     (if conn_closed s then (None, s)
      else (case budget s of
              Some 0 \<Rightarrow> (None, s)
            | Some (Suc n) \<Rightarrow>
                (case run_statement q (s\<lparr>budget := Some n\<rparr>) of (rows, s') \<Rightarrow> (Some rows, s'))
            | None \<Rightarrow> (case run_statement q s of (rows, s') \<Rightarrow> (Some rows, s'))))"

text \<open>
  \<open>StdDatabase.query\<close>: on a \<open>psycopg.Error\<close> the error is printed, the connection
  closed (with a rollback) and the script left with \<open>sys.exit(1)\<close>.
\<close>

definition query :: "statement \<Rightarrow> nat list action" where
  "query q s =
     (case cursor_execute q s of
        (None, s') \<Rightarrow> and_then (close False) (\<lambda>_. raise (SystemExit (Some 1))) s'
      | (Some rows, s') \<Rightarrow> (Inr rows, s'))"

text \<open>\<open>result[0]['id']\<close>: the id of the first row, \<open>IndexError\<close> on an empty result.\<close>

definition first_id :: "nat list \<Rightarrow> nat action" where
  "first_id result = (case result of [] \<Rightarrow> raise IndexError | i # _ \<Rightarrow> succeed i)"

text \<open>The three lookups. An empty result closes the connection and calls \<open>sys.exit()\<close>.\<close>

definition get_system_id :: "string \<Rightarrow> nat action" where
  "get_system_id system_serial =
     and_then (query (Select_system system_serial)) (\<lambda>result.
       if length result = 0
       then and_then (close False) (\<lambda>_. raise (SystemExit None))
       else first_id result)"

definition get_manufacturer_id :: "string \<Rightarrow> nat action" where
  "get_manufacturer_id manufacturer_name =
     and_then (query (Select_manufacturer manufacturer_name)) (\<lambda>result.
       if length result = 0
       then and_then (close False) (\<lambda>_. raise (SystemExit None))
       else first_id result)"

definition get_part_type_id :: "string \<Rightarrow> nat action" where
  "get_part_type_id part_type_name =
     and_then (query (Select_type (py_lower part_type_name))) (\<lambda>result.
       if length result = 0
       then and_then (close False) (\<lambda>_. raise (SystemExit None))
       else first_id result)"

text \<open>
  The bookkeeping after an insert: the new id is appended to the list under the
  table's name, or starts that list.
\<close>

definition log_insert :: "string \<Rightarrow> nat \<Rightarrow> unit action" where
  "log_insert key i s =
     (Inr (),
      (case map_of (insert_log s) key of
         Some ids \<Rightarrow> s\<lparr>insert_log := AList.update key (ids @ [i]) (insert_log s)\<rparr>
       | None \<Rightarrow> s\<lparr>insert_log := insert_log s @ [(key, [i])]\<rparr>))"

text \<open>\<open>StdDatabase.insert_part\<close>.\<close>

definition insert_part :: "nat \<Rightarrow> string \<Rightarrow> string \<Rightarrow> nat \<Rightarrow> nat \<Rightarrow> nat action" where
  "insert_part system_id part_model part_serial type_id manufacturer_id =
     and_then (query (Select_part system_id part_model part_serial)) (\<lambda>result.
       if length result = 0
       then and_then
              (query (Insert_part system_id part_serial part_model type_id manufacturer_id
                        [] [] False [] []))
              (\<lambda>result. and_then (first_id result) (\<lambda>new_id.
                 and_then (log_insert ''production_part'' new_id) (\<lambda>_. first_id result)))
       else first_id result)"

text \<open>\<open>StdDatabase.insert_mac\<close>.\<close>

definition insert_mac :: "nat \<Rightarrow> string \<Rightarrow> string \<Rightarrow> nat action" where
  "insert_mac system_id mac_name mac_address =
     (if length mac_address > 17
      then and_then (close False) (\<lambda>_. raise (SystemExit (Some 1)))
      else and_then (query (Select_mac system_id mac_name)) (\<lambda>result.
             if length result = 0
             then and_then (query (Insert_mac system_id mac_name mac_address))
                    (\<lambda>result. and_then (first_id result) (\<lambda>new_id.
                       and_then (log_insert ''production_mac'' new_id) (\<lambda>_. first_id result)))
             else first_id result))"


text \<open>The rows of a table that an upsert looks for, and the row and log entry it writes.\<close>

definition matching_parts :: "nat \<Rightarrow> string \<Rightarrow> string \<Rightarrow> std_state \<Rightarrow> part_row list" where
  "matching_parts system_id part_model part_serial s =
     filter (part_matches system_id part_model part_serial) (production_part (working s))"

definition matching_macs :: "nat \<Rightarrow> string \<Rightarrow> std_state \<Rightarrow> mac_row list" where
  "matching_macs system_id mac_name s =
     filter (mac_matches system_id mac_name) (production_mac (working s))"

definition default_part_row ::
  "nat \<Rightarrow> nat \<Rightarrow> string \<Rightarrow> string \<Rightarrow> nat \<Rightarrow> nat \<Rightarrow> part_row" where
  "default_part_row i system_id part_model part_serial type_id manufacturer_id =
     \<lparr>p_id = i, p_system_id = system_id, p_serial = part_serial, p_model = part_model,
      p_type_id = type_id, p_manufacturer_id = manufacturer_id, p_intel_sa_number = [],
      p_support_number = [], p_rma = False, p_revision = [], p_part_revision = []\<rparr>"

definition logged :: "string \<Rightarrow> std_state \<Rightarrow> nat list" where
  "logged key s = (case map_of (insert_log s) key of None \<Rightarrow> [] | Some ids \<Rightarrow> ids)"

section \<open>The Redfish script: the update of the database\<close>

text \<open>
  The component bundle of one system, as \<open>parse_system_components\<close> builds it and the
  snapshot stores it: a dictionary with the keys \<open>manufacturer\<close>, \<open>model\<close> and
  \<open>serial\<close> for a part, with \<open>name\<close> and \<open>mac\<close> for an address. The type of the
  values is a parameter: the parser produces JSON values, \<open>update_std\<close> is modelled on
  bundles whose values are strings, the documented shape of the snapshot.
\<close>

record 'v component =
  c_manufacturer :: 'v
  c_model :: 'v
  c_serial :: 'v

record 'v mac_entry =
  e_name :: string
  e_mac :: 'v

record 'v components =
  motherboard :: "'v component"
  cpu :: "'v component list"
  memory :: "'v component list"
  psu :: "'v component list"
  ssd :: "'v component list"
  nic :: "'v component list"
  mac :: "'v mac_entry list"

text \<open>A subscript on one of the two translation tables raises \<open>KeyError\<close> on a missing key.\<close>

definition dict_item :: "(string \<times> string) list \<Rightarrow> string \<Rightarrow> string action" where
  "dict_item d key = (case map_of d key of None \<Rightarrow> raise (KeyError key) | Some v \<Rightarrow> succeed v)"

text \<open>
  The three statements that every part of a bundle goes through: the manufacturer is
  translated, its row id looked up, and the part upserted.
\<close>

definition insert_component :: "nat \<Rightarrow> nat \<Rightarrow> string component \<Rightarrow> nat action" where
  "insert_component system_id part_type_id part =
     and_then (dict_item MANUFACTURER_DICT (py_lower (c_manufacturer part))) (\<lambda>manufacturer.
     and_then (get_manufacturer_id manufacturer) (\<lambda>manufacturer_id.
       insert_part system_id (c_model part) (c_serial part) part_type_id manufacturer_id))"

text \<open>
  The loops over the CPUs and the memory modules look the part type up in every
  iteration; the loops over power supplies, drives and network adapters look it up
  once, before the loop.
\<close>

definition insert_typed :: "nat \<Rightarrow> string \<Rightarrow> string component \<Rightarrow> nat action" where
  "insert_typed system_id key part =
     and_then (dict_item TYPE_DICT key) (\<lambda>part_type.
     and_then (get_part_type_id part_type) (\<lambda>part_type_id.
       insert_component system_id part_type_id part))"

definition insert_all :: "nat \<Rightarrow> string \<Rightarrow> string component list \<Rightarrow> unit action" where
  "insert_all system_id key parts =
     and_then (dict_item TYPE_DICT key) (\<lambda>part_type.
     and_then (get_part_type_id part_type) (\<lambda>part_type_id.
       for_each (insert_component system_id part_type_id) parts))"

definition insert_password :: "nat \<Rightarrow> nat action" where
  "insert_password system_id =
     and_then (dict_item TYPE_DICT ''password'') (\<lambda>part_type.
     and_then (get_part_type_id part_type) (\<lambda>part_type_id.
     and_then (dict_item MANUFACTURER_DICT ''ixsystems'') (\<lambda>manufacturer.
     and_then (get_manufacturer_id manufacturer) (\<lambda>manufacturer_id.
       insert_part system_id ''IPMI Password'' ''Password123'' part_type_id manufacturer_id))))"

text \<open>
  The class \<open>StdDatabase\<close> of the source defines no attribute \<open>rows_inserted\<close>, which
  \<open>update_std\<close> reads three times. The read is a parameter of the model: a function
  from the state to the number read or the exception raised.
  \<open>rows_inserted_undefined\<close> is the class as it stands (the read raises
  \<open>AttributeError\<close>); \<open>rows_inserted_of_log\<close> counts the ids of the insert log, the
  number the printed messages speak of.
\<close>

type_synonym counter = "std_state \<Rightarrow> error + nat"

definition rows_inserted_undefined :: counter where
  "rows_inserted_undefined s = Inl AttributeError"

definition rows_inserted_of_log :: counter where
  "rows_inserted_of_log s = Inr (sum_list (map (\<lambda>entry. length (snd entry)) (insert_log s)))"

definition attribute :: "counter \<Rightarrow> nat action" where
  "attribute rows_inserted s = (rows_inserted s, s)"

text \<open>The body of the loop of \<open>update_std\<close> over the systems of the batch.\<close>

definition update_system :: "counter \<Rightarrow> string \<times> string components \<Rightarrow> unit action" where
  "update_system rows_inserted item =
     (case item of (ix_serial, bundle) \<Rightarrow>
     and_then (attribute rows_inserted) (\<lambda>pre_insertion_total.
     and_then (get_system_id ix_serial) (\<lambda>system_id.
     and_then (insert_typed system_id ''motherboard'' (motherboard bundle)) (\<lambda>_.
     and_then (for_each (insert_typed system_id ''cpu'') (cpu bundle)) (\<lambda>_.
     and_then (for_each (insert_typed system_id ''memory'') (memory bundle)) (\<lambda>_.
     and_then (insert_all system_id ''psu'' (psu bundle)) (\<lambda>_.
     and_then (insert_all system_id ''ssd'' (ssd bundle)) (\<lambda>_.
     and_then (insert_all system_id ''nic'' (nic bundle)) (\<lambda>_.
     and_then (insert_password system_id) (\<lambda>_.
     and_then (for_each (\<lambda>entry. insert_mac system_id (e_name entry) (py_upper (e_mac entry)))
                 (mac bundle)) (\<lambda>_.
     and_then (attribute rows_inserted) (\<lambda>total. succeed ()))))))))))))"

text \<open>
  \<open>update_std\<close>: the connection is opened, the systems are processed inside the
  \<open>with\<close> block, the total is printed and the transaction committed; \<open>__exit__\<close>
  closes the connection on every way out of the block.
\<close>

definition update_std :: "counter \<Rightarrow> (string \<times> string components) list \<Rightarrow> unit action" where
  "update_std rows_inserted systems =
     and_then StdDatabase_init (\<lambda>_.
       with_exit
         (and_then (for_each (update_system rows_inserted) systems) (\<lambda>_.
          and_then (attribute rows_inserted) (\<lambda>total. commit))))"

text \<open>
  What it means for a system of the batch to be imported into a set of tables: its
  serial has a row in \<open>production_system\<close>, and under the id of the first such row
  there is a part row for the motherboard, every CPU, memory module, power supply,
  drive and network adapter and for the password, and an address row for every name.
\<close>

definition all_parts :: "'v components \<Rightarrow> 'v component list" where
  "all_parts bundle =
     motherboard bundle # cpu bundle @ memory bundle @ psu bundle @ ssd bundle @ nic bundle"

definition has_part :: "tables \<Rightarrow> nat \<Rightarrow> string \<Rightarrow> string \<Rightarrow> bool" where
  "has_part t system_id part_model part_serial =
     (\<exists>row \<in> set (production_part t). part_matches system_id part_model part_serial row)"

definition has_mac :: "tables \<Rightarrow> nat \<Rightarrow> string \<Rightarrow> bool" where
  "has_mac t system_id mac_name =
     (\<exists>row \<in> set (production_mac t). mac_matches system_id mac_name row)"

definition imported :: "tables \<Rightarrow> string \<times> string components \<Rightarrow> bool" where
  "imported t item =
     (case item of (ix_serial, bundle) \<Rightarrow>
        (case ids_where (\<lambda>v. v = ix_serial) (production_system t) of
           [] \<Rightarrow> False
         | system_id # _ \<Rightarrow>
             (\<forall>part \<in> set (all_parts bundle).
                has_part t system_id (c_model part) (c_serial part)) \<and>
             has_part t system_id ''IPMI Password'' ''Password123'' \<and>
             (\<forall>entry \<in> set (mac bundle). has_mac t system_id (e_name entry))))"

text \<open>A part whose manufacturer, in lower case, is not a key of the translation table.\<close>

definition unmapped :: "string component \<Rightarrow> bool" where
  "unmapped part = (map_of MANUFACTURER_DICT (py_lower (c_manufacturer part)) = None)"


section \<open>Notions used in the proofs about the database\<close>

text \<open>
  \<open>grows t t'\<close>: the tables \<open>t'\<close> are the tables \<open>t\<close> with rows added at the end of
  \<open>production_part\<close> and \<open>production_mac\<close>; the reference tables are the same.
\<close>

definition grows :: "tables \<Rightarrow> tables \<Rightarrow> bool" where
  "grows t t' =
     (production_system t' = production_system t \<and>
      production_manufacturer t' = production_manufacturer t \<and>
      production_type t' = production_type t \<and>
      prefix (production_part t) (production_part t') \<and>
      prefix (production_mac t) (production_mac t'))"

text \<open>A property of tables that adding rows does not destroy.\<close>

definition stable :: "(tables \<Rightarrow> bool) \<Rightarrow> bool" where
  "stable P = (\<forall>t t'. grows t t' \<longrightarrow> P t \<longrightarrow> P t')"

text \<open>An action that, whatever its outcome, leaves the durable tables as they are.\<close>

definition keeps_stored :: "'a action \<Rightarrow> bool" where
  "keeps_stored m = (\<forall>s. stored (snd (m s)) = stored s \<and> commits (snd (m s)) = commits s)"

text \<open>
  An action that, when it returns, has only added rows to the tables of the transaction,
  and has established \<open>Q\<close> of its result and those tables.
\<close>

definition yields :: "'a action \<Rightarrow> ('a \<Rightarrow> tables \<Rightarrow> bool) \<Rightarrow> bool" where
  "yields m Q =
     (\<forall>s x s'. m s = (Inr x, s') \<longrightarrow> grows (working s) (working s') \<and> Q x (working s'))"

definition system_row :: "tables \<Rightarrow> string \<Rightarrow> nat \<Rightarrow> bool" where
  "system_row t system_serial system_id =
     (\<exists>others. ids_where (\<lambda>v. v = system_serial) (production_system t) = system_id # others)"

definition part_done :: "nat \<Rightarrow> string component \<Rightarrow> tables \<Rightarrow> bool" where
  "part_done system_id part t =
     (has_part t system_id (c_model part) (c_serial part) \<and> \<not> unmapped part)"

definition system_done :: "string \<times> string components \<Rightarrow> tables \<Rightarrow> bool" where
  "system_done item t =
     (imported t item \<and> (\<forall>part \<in> set (all_parts (snd item)). \<not> unmapped part))"

text \<open>
  A state in which a closed connection has left nothing behind: if the connection is
  closed, the view of the transaction is the durable tables. An action is \<open>tidy\<close> when
  it keeps states so, and does not close the connection when it returns.
\<close>

definition settled :: "std_state \<Rightarrow> bool" where
  "settled s = (conn_closed s \<longrightarrow> working s = stored s)"

definition tidy :: "'a action \<Rightarrow> bool" where
  "tidy m =
     (\<forall>s r s'. settled s \<longrightarrow> m s = (r, s') \<longrightarrow>
        settled s' \<and> (\<forall>x. r = Inr x \<longrightarrow> conn_closed s' = conn_closed s))"

text \<open>The body of the \<open>with\<close> block of \<open>update_std\<close>.\<close>

definition batch_body :: "counter \<Rightarrow> (string \<times> string components) list \<Rightarrow> unit action" where
  "batch_body rows_inserted systems =
     and_then (for_each (update_system rows_inserted) systems) (\<lambda>_.
     and_then (attribute rows_inserted) (\<lambda>total. commit))"

text \<open>A database and a batch of one system, for the examples.\<close>

definition example_tables :: tables where
  "example_tables =
     \<lparr>production_system = [(7, ''A1-102049'')],
      production_manufacturer = [(1, ''lenovo''), (2, ''intel''), (3, ''ix systems'')],
      production_type = [(1, ''motherboard''), (2, ''cpu''), (3, ''memory''),
         (4, ''power supply''), (5, ''ssd m.2''), (6, ''nic''), (7, ''unique password'')],
      production_part = [], production_mac = []\<rparr>"

definition example_state :: std_state where
  "example_state =
     \<lparr>stored = example_tables, working = example_tables, part_id_seq = 100, mac_id_seq = 50,
      reachable = True, conn_closed = True, budget = None, commits = 0, insert_log = []\<rparr>"

definition example_session :: std_state where
  "example_session = example_state\<lparr>conn_closed := False\<rparr>"

definition example_bundle :: "string components" where
  "example_bundle =
     \<lparr>motherboard = \<lparr>c_manufacturer = ''Lenovo'', c_model = ''7D73CTO1WW'',
                      c_serial = ''J900AB12''\<rparr>,
      cpu = [\<lparr>c_manufacturer = ''Intel(R) Corporation'', c_model = ''Xeon Gold'',
               c_serial = ''0001''\<rparr>],
      memory = [], psu = [], ssd = [], nic = [],
      mac = [\<lparr>e_name = ''IPMI 1 MAC'', e_mac = ''aa:bb:cc:dd:ee:ff''\<rparr>]\<rparr>"

definition kingston :: "string component" where
  "kingston = \<lparr>c_manufacturer = ''Kingston'', c_model = ''KSM32RD4'', c_serial = ''0042''\<rparr>"


section \<open>The Redfish script: reading the components\<close>

subsection \<open>JSON values and the operations of Python on them\<close>

text \<open>
  A parsed JSON body: \<open>None\<close>, a boolean, a number, a string, a list or a dictionary
  (its items in order, every key once). The operations below are the ones
  \<open>parse_system_components\<close> applies to such values, with the exception Python raises
  when the value has the wrong type.
\<close>

datatype json =
    JNull
  | JBool bool
  | JNum int
  | JStr string
  | JArr "json list"
  | JObj "(string \<times> json) list"

text \<open>Code without state: a result is the exception raised or the value returned.\<close>

definition pbind :: "error + 'a \<Rightarrow> ('a \<Rightarrow> error + 'b) \<Rightarrow> error + 'b" where
  "pbind r f = (case r of Inl e \<Rightarrow> Inl e | Inr x \<Rightarrow> f x)"

text \<open>\<open>body.get(key, default)\<close>: only a dictionary has the method.\<close>

fun py_get :: "json \<Rightarrow> string \<Rightarrow> json \<Rightarrow> error + json" where
  "py_get (JObj items) key dflt =
     Inr (case map_of items key of Some v \<Rightarrow> v | None \<Rightarrow> dflt)"
| "py_get _ key dflt = Inl AttributeError"

text \<open>\<open>len(v)\<close> and the elements a \<open>for\<close> loop over \<open>v\<close> visits.\<close>

fun py_len :: "json \<Rightarrow> error + nat" where
  "py_len (JArr xs) = Inr (length xs)"
| "py_len (JStr s) = Inr (length s)"
| "py_len (JObj items) = Inr (length items)"
| "py_len _ = Inl TypeError"

fun py_iter :: "json \<Rightarrow> json list" where
  "py_iter (JArr xs) = xs"
| "py_iter (JStr s) = map (\<lambda>c. JStr [c]) s"
| "py_iter (JObj items) = map (\<lambda>item. JStr (fst item)) items"
| "py_iter _ = []"

text \<open>\<open>base_url + link\<close>: a string can only be joined with a string.\<close>

fun str_add :: "string \<Rightarrow> json \<Rightarrow> error + string" where
  "str_add base (JStr s) = Inr (base @ s)"
| "str_add base _ = Inl TypeError"

text \<open>\<open>sub in s\<close> on strings: \<open>sub\<close> occurs in \<open>s\<close> as a run of consecutive characters.\<close>

fun py_contains :: "string \<Rightarrow> string \<Rightarrow> bool" where
  "py_contains sub [] = (sub = [])"
| "py_contains sub (c # cs) = (prefix sub (c # cs) \<or> py_contains sub cs)"

text \<open>\<open>'NIC' in v\<close>: a substring test on a string, membership in a list or among keys.\<close>

fun py_in :: "string \<Rightarrow> json \<Rightarrow> error + bool" where
  "py_in sub (JStr s) = Inr (py_contains sub s)"
| "py_in sub (JArr xs) = Inr (JStr sub \<in> set xs)"
| "py_in sub (JObj items) = Inr (sub \<in> fst ` set items)"
| "py_in sub _ = Inl TypeError"

text \<open>The decimal digits of a number, as an f-string renders it.\<close>

fun str_of_nat :: "nat \<Rightarrow> string" where
  "str_of_nat n =
     (if n < 10 then [''0123456789'' ! n]
      else str_of_nat (n div 10) @ [''0123456789'' ! (n mod 10)])"

subsection \<open>The HTTP client\<close>

text \<open>
  What \<open>requests.get\<close> does for a URL: it raises (no connection, timeout, TLS
  failure), or it returns a response with its \<open>ok\<close> flag and a body that is JSON or
  not. The management interfaces are a function from URLs to such outcomes.
\<close>

datatype http_outcome =
    Raises
  | Response bool "json option"

type_synonym net = "string \<Rightarrow> http_outcome"

text \<open>
  \<open>get_http_response_body\<close>. The call of \<open>requests.get\<close> is outside the \<open>try\<close>, so
  what it raises leaves the function. A response that is not \<open>ok\<close> gives the empty
  dictionary. For an \<open>ok\<close> response \<open>response.json()\<close> is called inside the \<open>try\<close>:
  a body that decodes is returned as it is, whatever JSON value it is. A body that does
  not decode makes \<open>response.json()\<close> raise; the \<open>except\<close> clause names
  \<open>requests.RequestsJSONDecodeError\<close>, and the package \<open>requests\<close> has no attribute of
  that name (its decoding error is \<open>requests.JSONDecodeError\<close>), so looking the handler
  up raises \<open>AttributeError\<close>, which leaves the function in place of the decoding error.
\<close>

definition get_http_response_body :: "net \<Rightarrow> string \<Rightarrow> error + json" where
  "get_http_response_body net url =
     (case net url of
        Raises \<Rightarrow> Inl RequestException
      | Response ok content \<Rightarrow>
          (if ok
           then (case content of Some body \<Rightarrow> Inr body | None \<Rightarrow> Inl AttributeError)
           else Inr (JObj [])))"

text \<open>Whether a value is a Python \<open>dict\<close>.\<close>

fun is_dict :: "json \<Rightarrow> bool" where
  "is_dict (JObj items) = True"
| "is_dict _ = False"

subsection \<open>The sections of \<open>parse_system_components\<close>\<close>

text \<open>The detail body behind a member of a collection: its link is read and fetched.\<close>

definition fetch_member :: "net \<Rightarrow> string \<Rightarrow> json \<Rightarrow> error + json" where
  "fetch_member net base_url member =
     pbind (py_get member ''@odata.id'' (JStr [])) (\<lambda>link.
     pbind (str_add base_url link) (\<lambda>url.
       get_http_response_body net url))"

text \<open>The dictionary appended for a part, from the three keys read off a body.\<close>

definition part_record :: "string \<Rightarrow> string \<Rightarrow> string \<Rightarrow> json \<Rightarrow> error + json component" where
  "part_record manufacturer_key model_key serial_key body =
     pbind (py_get body manufacturer_key (JStr [])) (\<lambda>m.
     pbind (py_get body model_key (JStr [])) (\<lambda>p.
     pbind (py_get body serial_key (JStr [])) (\<lambda>sn.
       Inr \<lparr>c_manufacturer = m, c_model = p, c_serial = sn\<rparr>)))"

text \<open>A result-collecting \<open>for\<close> loop: each element contributes a list of records.\<close>

fun collect :: "('a \<Rightarrow> error + 'b list) \<Rightarrow> 'a list \<Rightarrow> error + 'b list" where
  "collect f [] = Inr []"
| "collect f (x # xs) =
     pbind (f x) (\<lambda>found. pbind (collect f xs) (\<lambda>more. Inr (found @ more)))"

text \<open>
  The list under a key of a collection body, as the loop visits it; the branch for an
  empty list only prints a message.
\<close>

definition members_of :: "json \<Rightarrow> string \<Rightarrow> error + json list" where
  "members_of body key =
     pbind (py_get body key (JArr [])) (\<lambda>members.
     pbind (py_len members) (\<lambda>n.
       if n = 0 then Inr [] else Inr (py_iter members)))"

text \<open>Motherboard: the chassis body gives the model and, three levels down, the serial.\<close>

definition parse_motherboard :: "json \<Rightarrow> error + json component" where
  "parse_motherboard body =
     pbind (py_get body ''SKU'' (JStr [])) (\<lambda>motherboard_model.
     pbind (py_get body ''Oem'' (JObj [])) (\<lambda>oem.
     pbind (py_get oem ''Lenovo'' (JObj [])) (\<lambda>lenovo.
     pbind (py_get lenovo ''SystemBoardSerialNumber'' (JStr [])) (\<lambda>motherboard_serial.
       Inr \<lparr>c_manufacturer = JStr ''Lenovo'', c_model = motherboard_model,
            c_serial = motherboard_serial\<rparr>))))"

text \<open>Drives: the links are under \<open>Links\<close>, \<open>Drives\<close> of the chassis body.\<close>

definition ssd_record :: "net \<Rightarrow> string \<Rightarrow> json \<Rightarrow> error + json component list" where
  "ssd_record net base_url drive =
     pbind (fetch_member net base_url drive) (\<lambda>body.
     pbind (part_record ''Manufacturer'' ''Model'' ''SerialNumber'' body) (\<lambda>r. Inr [r]))"

definition parse_ssd :: "net \<Rightarrow> string \<Rightarrow> json \<Rightarrow> error + json component list" where
  "parse_ssd net base_url body =
     pbind (py_get body ''Links'' (JObj [])) (\<lambda>links.
     pbind (members_of links ''Drives'') (\<lambda>drive_list.
       collect (ssd_record net base_url) drive_list))"

text \<open>Processors: the serial is under \<open>ProcessorId\<close>.\<close>

definition cpu_record :: "net \<Rightarrow> string \<Rightarrow> json \<Rightarrow> error + json component list" where
  "cpu_record net base_url member =
     pbind (fetch_member net base_url member) (\<lambda>body.
     pbind (py_get body ''Manufacturer'' (JStr [])) (\<lambda>cpu_manufacturer.
     pbind (py_get body ''Model'' (JStr [])) (\<lambda>cpu_model.
     pbind (py_get body ''ProcessorId'' (JObj [])) (\<lambda>processor_id.
     pbind (py_get processor_id ''ProtectedIdentificationNumber'' (JStr [])) (\<lambda>cpu_serial.
       Inr [\<lparr>c_manufacturer = cpu_manufacturer, c_model = cpu_model,
             c_serial = cpu_serial\<rparr>])))))"

definition parse_cpu :: "net \<Rightarrow> string \<Rightarrow> error + json component list" where
  "parse_cpu net base_url =
     pbind (get_http_response_body net (base_url @ ''/redfish/v1/Systems/1/Processors''))
       (\<lambda>body. pbind (members_of body ''Members'') (\<lambda>cpu_list.
          collect (cpu_record net base_url) cpu_list))"

text \<open>
  Memory: a body whose part number and serial are both \<open>None\<close> is an unpopulated slot
  and is skipped. \<open>memory_of_body\<close> is the part of the loop body after the fetch.
\<close>

definition memory_of_body :: "json \<Rightarrow> error + json component list" where
  "memory_of_body body =
     pbind (py_get body ''Manufacturer'' (JStr [])) (\<lambda>memory_manufacturer.
     pbind (py_get body ''PartNumber'' (JStr [])) (\<lambda>memory_model.
     pbind (py_get body ''SerialNumber'' (JStr [])) (\<lambda>memory_serial.
       if memory_model = JNull \<and> memory_serial = JNull then Inr []
       else Inr [\<lparr>c_manufacturer = memory_manufacturer, c_model = memory_model,
                  c_serial = memory_serial\<rparr>])))"

definition memory_record :: "net \<Rightarrow> string \<Rightarrow> json \<Rightarrow> error + json component list" where
  "memory_record net base_url member =
     pbind (fetch_member net base_url member) memory_of_body"

definition parse_memory :: "net \<Rightarrow> string \<Rightarrow> error + json component list" where
  "parse_memory net base_url =
     pbind (get_http_response_body net (base_url @ ''/redfish/v1/Systems/1/Memory''))
       (\<lambda>body. pbind (members_of body ''Members'') (\<lambda>memory_list.
          collect (memory_record net base_url) memory_list))"

text \<open>Power supplies: the list holds the bodies themselves.\<close>

definition psu_record :: "json \<Rightarrow> error + json component list" where
  "psu_record psu_body =
     pbind (part_record ''Manufacturer'' ''PartNumber'' ''SerialNumber'' psu_body)
       (\<lambda>r. Inr [r])"

definition parse_psu :: "net \<Rightarrow> string \<Rightarrow> error + json component list" where
  "parse_psu net base_url =
     pbind (get_http_response_body net (base_url @ ''/redfish/v1/Chassis/1/Power''))
       (\<lambda>body. pbind (members_of body ''PowerSupplies'') (\<lambda>psu_list.
          collect psu_record psu_list))"

text \<open>Network adapters.\<close>

definition nic_record :: "net \<Rightarrow> string \<Rightarrow> json \<Rightarrow> error + json component list" where
  "nic_record net base_url member =
     pbind (fetch_member net base_url member) (\<lambda>body.
     pbind (part_record ''Manufacturer'' ''Model'' ''SerialNumber'' body) (\<lambda>r. Inr [r]))"

definition parse_nic :: "net \<Rightarrow> string \<Rightarrow> error + json component list" where
  "parse_nic net base_url =
     pbind (get_http_response_body net (base_url @ ''/redfish/v1/Chassis/1/NetworkAdapters''))
       (\<lambda>body. pbind (members_of body ''Members'') (\<lambda>nic_list.
          collect (nic_record net base_url) nic_list))"

text \<open>
  Addresses of the network interfaces. The loop carries \<open>nic_number\<close>; a member whose
  link does not contain \<open>NIC\<close> is skipped before anything is fetched.
\<close>

definition nic_mac_name :: "nat \<Rightarrow> string" where
  "nic_mac_name nic_number = ''NIC '' @ str_of_nat nic_number @ '' MAC''"

fun nic_mac_loop :: "net \<Rightarrow> string \<Rightarrow> nat \<Rightarrow> json list \<Rightarrow> error + json mac_entry list" where
  "nic_mac_loop net base_url nic_number [] = Inr []"
| "nic_mac_loop net base_url nic_number (member # rest) =
     pbind (py_get member ''@odata.id'' (JStr [])) (\<lambda>mac_link.
     pbind (py_in ''NIC'' mac_link) (\<lambda>is_nic.
       if \<not> is_nic then nic_mac_loop net base_url nic_number rest
       else pbind (str_add base_url mac_link) (\<lambda>url.
            pbind (get_http_response_body net url) (\<lambda>body.
            pbind (py_get body ''PermanentMACAddress'' (JStr [])) (\<lambda>mac_address.
            pbind (nic_mac_loop net base_url (nic_number + 1) rest) (\<lambda>more.
              Inr (\<lparr>e_name = nic_mac_name nic_number, e_mac = mac_address\<rparr> # more)))))))"

definition parse_nic_mac :: "net \<Rightarrow> string \<Rightarrow> error + json mac_entry list" where
  "parse_nic_mac net base_url =
     pbind (get_http_response_body net
              (base_url @ ''/redfish/v1/Systems/1/EthernetInterfaces''))
       (\<lambda>body. pbind (members_of body ''Members'') (\<lambda>mac_list.
          nic_mac_loop net base_url 1 mac_list))"

text \<open>Address of the management controller.\<close>

definition parse_bmc_mac :: "net \<Rightarrow> string \<Rightarrow> error + json mac_entry" where
  "parse_bmc_mac net base_url =
     pbind (get_http_response_body net
              (base_url @ ''/redfish/v1/Managers/1/EthernetInterfaces/NIC''))
       (\<lambda>body. pbind (py_get body ''PermanentMACAddress'' (JStr [])) (\<lambda>mac_address.
          Inr \<lparr>e_name = ''IPMI 1 MAC'', e_mac = mac_address\<rparr>))"

text \<open>\<open>parse_system_components\<close>: the sections in the order of the source.\<close>

definition parse_system_components :: "net \<Rightarrow> string \<Rightarrow> error + json components" where
  "parse_system_components net ip =
     (let base_url = ''https://'' @ ip in
      pbind (get_http_response_body net (base_url @ ''/redfish/v1/Chassis/1'')) (\<lambda>body.
      pbind (parse_motherboard body) (\<lambda>motherboard_record.
      pbind (parse_ssd net base_url body) (\<lambda>ssd_records.
      pbind (parse_cpu net base_url) (\<lambda>cpu_records.
      pbind (parse_memory net base_url) (\<lambda>memory_records.
      pbind (parse_psu net base_url) (\<lambda>psu_records.
      pbind (parse_nic net base_url) (\<lambda>nic_records.
      pbind (parse_nic_mac net base_url) (\<lambda>nic_macs.
      pbind (parse_bmc_mac net base_url) (\<lambda>bmc_mac.
        Inr \<lparr>motherboard = motherboard_record, cpu = cpu_records, memory = memory_records,
             psu = psu_records, ssd = ssd_records, nic = nic_records,
             mac = nic_macs @ [bmc_mac]\<rparr>))))))))))"

text \<open>The value a dictionary gives for a key that \<open>get\<close> reads with a default.\<close>

definition item_or :: "(string \<times> json) list \<Rightarrow> string \<Rightarrow> json \<Rightarrow> json" where
  "item_or items key dflt = (case map_of items key of Some v \<Rightarrow> v | None \<Rightarrow> dflt)"

text \<open>A key that a body does not have at all.\<close>

definition key_absent :: "json \<Rightarrow> string \<Rightarrow> bool" where
  "key_absent body key = (case body of JObj items \<Rightarrow> map_of items key = None | _ \<Rightarrow> True)"




text \<open>
  A management interface for the examples: four memory slots (one populated, one
  unpopulated, one whose detail request fails, one that reports a part number but
  neither manufacturer nor serial) and three interfaces (two network ports and the
  link to the host); every other request is refused.
\<close>

definition example_net :: net where
  "example_net url =
     (if url = ''https://10.48.143.80/redfish/v1/Systems/1/Memory''
      then Response True (Some (JObj [(''Members'', JArr
             [JObj [(''@odata.id'', JStr ''/redfish/v1/Systems/1/Memory/1'')],
              JObj [(''@odata.id'', JStr ''/redfish/v1/Systems/1/Memory/2'')],
              JObj [(''@odata.id'', JStr ''/redfish/v1/Systems/1/Memory/3'')],
              JObj [(''@odata.id'', JStr ''/redfish/v1/Systems/1/Memory/4'')]])]))
      else if url = ''https://10.48.143.80/redfish/v1/Systems/1/Memory/1''
      then Response True (Some (JObj [(''Manufacturer'', JStr ''Samsung''),
             (''PartNumber'', JStr ''M393A4K40DB3-CWE''), (''SerialNumber'', JStr ''0123ABCD'')]))
      else if url = ''https://10.48.143.80/redfish/v1/Systems/1/Memory/2''
      then Response True (Some (JObj [(''Manufacturer'', JNull), (''PartNumber'', JNull),
             (''SerialNumber'', JNull)]))
      else if url = ''https://10.48.143.80/redfish/v1/Systems/1/Memory/4''
      then Response True (Some (JObj [(''Manufacturer'', JNull),
             (''PartNumber'', JStr ''HMA84GR7CJR4N-XN''), (''SerialNumber'', JNull)]))
      else if url = ''https://10.48.143.80/redfish/v1/Systems/1/EthernetInterfaces''
      then Response True (Some (JObj [(''Members'', JArr
             [JObj [(''@odata.id'', JStr ''/redfish/v1/Systems/1/EthernetInterfaces/NIC1'')],
              JObj [(''@odata.id'', JStr ''/redfish/v1/Systems/1/EthernetInterfaces/ToHost'')],
              JObj [(''@odata.id'', JStr ''/redfish/v1/Systems/1/EthernetInterfaces/NIC2'')]])]))
      else if url = ''https://10.48.143.80/redfish/v1/Systems/1/EthernetInterfaces/NIC1''
      then Response True (Some (JObj [(''PermanentMACAddress'', JStr ''7c:8a:e1:00:00:01'')]))
      else if url = ''https://10.48.143.80/redfish/v1/Systems/1/EthernetInterfaces/NIC2''
      then Response True (Some (JObj [(''PermanentMACAddress'', JStr ''7c:8a:e1:00:00:02'')]))
      else Response False None)"


section \<open>Properties of the string functions\<close>

lemma re_sub_asterisk_filter: "re_sub_asterisk s = filter (\<lambda>c. c \<noteq> CHR ''*'') s"
  by (induction s) auto





lemma py_strip_blank: "\<forall>c \<in> set s. py_isspace c \<Longrightarrow> py_strip s = []"
proof -
  assume "\<forall>c \<in> set s. py_isspace c"
  then have "dropWhile py_isspace s = []" by simp
  then show ?thesis unfolding py_strip_def by (simp only: rev.simps dropWhile.simps)
qed


section \<open>Properties of the DIMM pull script\<close>

text \<open>
  C9. Asterisk stripping. The cleaned serial is the raw serial with every asterisk
  removed and every other character kept, in order; the list of serials used for the
  directory lookup is the list of raw serials cleaned this way; and the raw serial
  \<open>A1*-102049*\<close> is cleaned to \<open>A1-102049\<close>.
\<close>

theorem asterisk_stripping:
  "re_sub_asterisk raw = filter (\<lambda>c. c \<noteq> CHR ''*'') raw \<and>
   serial_list sql_list = map (filter (\<lambda>c. c \<noteq> CHR ''*'')) sql_list \<and>
   CHR ''*'' \<notin> set (re_sub_asterisk raw) \<and>
   re_sub_asterisk ''A1*-102049*'' = ''A1-102049''"
proof -
  have f: "re_sub_asterisk = filter (\<lambda>c. c \<noteq> CHR ''*'')"
    by (rule ext) (rule re_sub_asterisk_filter)
  have "serial_list sql_list = map re_sub_asterisk sql_list"
    by (induction sql_list) (simp_all add: serial_list_def cleaned_sql_list_def)
  then show ?thesis by (simp add: f)
qed

theorem asterisk_stripping_witness:
  "serial_list [''A1*-102049*'', ''A1-102050'', ''**''] = [''A1-102049'', ''A1-102050'', []]"
  using asterisk_stripping [of "[]" "[''A1*-102049*'', ''A1-102050'', ''**'']"] by simp






section \<open>Properties of the input file of the Redfish script\<close>

lemma parse_input_file_spec:
  "parse_input_file (ips, sers) lines =
     (if \<forall>line \<in> set lines. is_comment_line line \<or> length (line_tokens line) = 2
      then Inr (ips @ map (\<lambda>line. line_tokens line ! 0)
                        (filter (\<lambda>line. \<not> is_comment_line line) lines),
                sers @ map (\<lambda>line. line_tokens line ! 1)
                         (filter (\<lambda>line. \<not> is_comment_line line) lines))
      else Inl (SystemExit (Some 1)))"
  by (induction lines arbitrary: ips sers) (auto simp: Let_def)

lemma is_comment_line_iff: "is_comment_line line \<longleftrightarrow> (\<exists>rest. line = CHR ''#'' # rest)"
  by (cases line) (auto simp: is_comment_line_def)

lemma blank_not_comment: "\<forall>c \<in> set s. py_isspace c \<Longrightarrow> \<not> is_comment_line s"
  by (cases s) (auto simp: is_comment_line_def py_isspace_def)

text \<open>
  C10. Edge cases of the input file. A line is a comment exactly when its first raw
  character is \<open>#\<close>. The file is accepted exactly when every other line splits into 2
  whitespace-separated tokens, and then the two lists hold the first and the second
  token of those lines in order; otherwise the run ends with \<open>sys.exit(1)\<close>. So a file
  with a line made of whitespace only (an empty line is a lone line feed) is refused.
\<close>

theorem input_file_edge_cases:
  "(is_comment_line line \<longleftrightarrow> (\<exists>rest. line = CHR ''#'' # rest)) \<and>
   parse_input_file (ips, sers) lines =
     (if \<forall>line \<in> set lines. is_comment_line line \<or> length (line_tokens line) = 2
      then Inr (ips @ map (\<lambda>line. line_tokens line ! 0)
                        (filter (\<lambda>line. \<not> is_comment_line line) lines),
                sers @ map (\<lambda>line. line_tokens line ! 1)
                         (filter (\<lambda>line. \<not> is_comment_line line) lines))
      else Inl (SystemExit (Some 1))) \<and>
   ((\<exists>blank \<in> set lines. \<forall>c \<in> set blank. py_isspace c) \<longrightarrow>
      parse_input_file (ips, sers) lines = Inl (SystemExit (Some 1)))"
proof (intro conjI impI)
  show "is_comment_line line \<longleftrightarrow> (\<exists>rest. line = CHR ''#'' # rest)"
    by (rule is_comment_line_iff)
next
  show "parse_input_file (ips, sers) lines =
     (if \<forall>line \<in> set lines. is_comment_line line \<or> length (line_tokens line) = 2
      then Inr (ips @ map (\<lambda>line. line_tokens line ! 0)
                        (filter (\<lambda>line. \<not> is_comment_line line) lines),
                sers @ map (\<lambda>line. line_tokens line ! 1)
                         (filter (\<lambda>line. \<not> is_comment_line line) lines))
      else Inl (SystemExit (Some 1)))"
    by (rule parse_input_file_spec)
next
  assume "\<exists>blank \<in> set lines. \<forall>c \<in> set blank. py_isspace c"
  then obtain blank where b: "blank \<in> set lines" and w: "\<forall>c \<in> set blank. py_isspace c"
    by blast
  from w have "line_tokens blank = []" by (simp add: line_tokens_def py_strip_blank)
  moreover from w have "\<not> is_comment_line blank" by (rule blank_not_comment)
  ultimately have "\<not> (\<forall>line \<in> set lines. is_comment_line line \<or> length (line_tokens line) = 2)"
    using b by force
  then show "parse_input_file (ips, sers) lines = Inl (SystemExit (Some 1))"
    by (simp only: parse_input_file_spec if_False)
qed

theorem input_file_edge_cases_witness:
  "parse_input_file ([], []) [''10.48.143.80 A1-102049\<newline>'', ''\<newline>'']
     = Inl (SystemExit (Some 1)) \<and>
   is_comment_line ''# 10.48.133.155 A1-102050\<newline>'' \<and>
   \<not> is_comment_line '' # note\<newline>'' \<and>
   parse_input_file ([], [])
     [''10.48.143.80 A1-102049\<newline>'', ''# 10.48.133.155 A1-102050\<newline>'', '' # note\<newline>'']
     = Inr ([''10.48.143.80'', ''#''], [''A1-102049'', ''note''])"
proof -
  have b: "\<exists>blank \<in> set [''10.48.143.80 A1-102049\<newline>'', ''\<newline>''].
             \<forall>c \<in> set blank. py_isspace c"
    by (simp add: py_isspace_def)
  have r1: "parse_input_file ([], []) [''10.48.143.80 A1-102049\<newline>'', ''\<newline>'']
              = Inl (SystemExit (Some 1))"
    by (rule mp [OF conjunct2 [OF conjunct2 [OF input_file_edge_cases]] b])
  have c: "is_comment_line ''# 10.48.133.155 A1-102050\<newline>''"
    "\<not> is_comment_line '' # note\<newline>''"
    "\<not> is_comment_line ''10.48.143.80 A1-102049\<newline>''"
    by (simp_all add: is_comment_line_def)
  have t: "line_tokens ''10.48.143.80 A1-102049\<newline>'' = [''10.48.143.80'', ''A1-102049'']"
    "line_tokens '' # note\<newline>'' = [''#'', ''note'']"
    by (simp_all add: line_tokens_def py_strip_def py_isspace_def)
  have r2: "parse_input_file ([], [])
     [''10.48.143.80 A1-102049\<newline>'', ''# 10.48.133.155 A1-102050\<newline>'', '' # note\<newline>'']
     = Inr ([''10.48.143.80'', ''#''], [''A1-102049'', ''note''])"
    by (simp only: conjunct1 [OF conjunct2 [OF input_file_edge_cases]]) (simp add: c t)
  from r1 c(1,2) r2 show ?thesis by (intro conjI)
qed


section \<open>Properties of the database methods\<close>



lemma grows_refl: "grows t t"
  by (simp add: grows_def)

lemma grows_trans: "grows t t' \<Longrightarrow> grows t' t'' \<Longrightarrow> grows t t''"
  by (auto simp: grows_def)

lemma has_part_grows: "grows t t' \<Longrightarrow> has_part t i m sn \<Longrightarrow> has_part t' i m sn"
  by (auto simp: grows_def has_part_def dest: set_mono_prefix)

lemma has_mac_grows: "grows t t' \<Longrightarrow> has_mac t i n \<Longrightarrow> has_mac t' i n"
  by (auto simp: grows_def has_mac_def dest: set_mono_prefix)

lemma keeps_succeed: "keeps_stored (succeed x)"
  by (simp add: keeps_stored_def succeed_def)

lemma keeps_raise: "keeps_stored (raise e)"
  by (simp add: keeps_stored_def raise_def)

lemma keeps_and_then: "keeps_stored m \<Longrightarrow> (\<And>x. keeps_stored (f x)) \<Longrightarrow> keeps_stored (and_then m f)"
  unfolding keeps_stored_def and_then_def
proof (intro allI)
  fix s
  assume m: "\<forall>s. stored (snd (m s)) = stored s \<and> commits (snd (m s)) = commits s"
    and f: "\<And>x. \<forall>s. stored (snd (f x s)) = stored s \<and> commits (snd (f x s)) = commits s"
  obtain r s1 where ms: "m s = (r, s1)" by (cases "m s")
  with m[rule_format, of s] have s1: "stored s1 = stored s" "commits s1 = commits s" by simp_all
  show "stored (snd (case m s of (Inl e, s') \<Rightarrow> (Inl e, s') | (Inr x, s') \<Rightarrow> f x s')) = stored s \<and>
        commits (snd (case m s of (Inl e, s') \<Rightarrow> (Inl e, s') | (Inr x, s') \<Rightarrow> f x s')) = commits s"
  proof (cases r)
    case (Inl e)
    with ms s1 show ?thesis by simp
  next
    case (Inr x)
    with ms s1 f[of x, rule_format, of s1] show ?thesis by simp
  qed
qed

lemma keeps_for_each: "(\<And>x. keeps_stored (f x)) \<Longrightarrow> keeps_stored (for_each f xs)"
proof (induction xs)
  case Nil
  show ?case by (simp add: keeps_stored_def)
next
  case (Cons x xs)
  have "for_each f (x # xs) = and_then (f x) (\<lambda>_. for_each f xs)"
    by (rule ext) (simp add: and_then_def)
  then show ?case using Cons by (simp add: keeps_and_then)
qed

lemma keeps_rollback: "keeps_stored rollback"
  by (simp add: keeps_stored_def rollback_def)

lemma keeps_close: "keeps_stored (close False)"
  by (simp add: keeps_stored_def close_def and_then_def rollback_def)

lemma run_statement_stored:
  "stored (snd (run_statement q s)) = stored s \<and> commits (snd (run_statement q s)) = commits s"
  by (cases q) simp_all

lemma cursor_execute_stored:
  "stored (snd (cursor_execute q s)) = stored s \<and> commits (snd (cursor_execute q s)) = commits s"
  by (simp add: cursor_execute_def case_prod_beta run_statement_stored
           split: option.splits nat.splits)

lemma keeps_query: "keeps_stored (query q)"
  unfolding keeps_stored_def
proof
  fix s
  obtain r s1 where c: "cursor_execute q s = (r, s1)" by (cases "cursor_execute q s")
  with cursor_execute_stored[of q s] have s1: "stored s1 = stored s" "commits s1 = commits s"
    by simp_all
  have k: "keeps_stored (and_then (close False) (\<lambda>_. raise (SystemExit (Some 1)) :: nat list action))"
    by (intro keeps_and_then keeps_close keeps_raise)
  show "stored (snd (query q s)) = stored s \<and> commits (snd (query q s)) = commits s"
    using c s1 k[unfolded keeps_stored_def, rule_format, of s1]
    by (cases r) (simp_all add: query_def)
qed

lemma keeps_first_id: "keeps_stored (first_id xs)"
  by (cases xs) (simp_all add: first_id_def keeps_raise keeps_succeed)

lemma keeps_log_insert: "keeps_stored (log_insert k i)"
  by (simp add: keeps_stored_def log_insert_def split: option.splits)

lemma keeps_dict_item: "keeps_stored (dict_item d k)"
  by (simp add: dict_item_def keeps_raise keeps_succeed split: option.splits)

lemma keeps_attribute: "keeps_stored (attribute ri)"
  by (simp add: keeps_stored_def attribute_def)

lemmas keeps_basic = keeps_and_then keeps_for_each keeps_succeed keeps_raise keeps_close
  keeps_query keeps_first_id keeps_log_insert keeps_dict_item keeps_attribute

lemma keeps_get_system_id: "keeps_stored (get_system_id x)"
  unfolding get_system_id_def by (intro keeps_and_then) (simp_all add: keeps_basic)

lemma keeps_get_manufacturer_id: "keeps_stored (get_manufacturer_id x)"
  unfolding get_manufacturer_id_def by (intro keeps_and_then) (simp_all add: keeps_basic)

lemma keeps_get_part_type_id: "keeps_stored (get_part_type_id x)"
  unfolding get_part_type_id_def by (intro keeps_and_then) (simp_all add: keeps_basic)

lemma keeps_insert_part: "keeps_stored (insert_part a b c d e)"
  unfolding insert_part_def by (intro keeps_and_then) (simp_all add: keeps_basic)

lemma keeps_insert_mac: "keeps_stored (insert_mac a b c)"
  unfolding insert_mac_def by (simp add: keeps_basic)

lemmas keeps_methods = keeps_get_system_id keeps_get_manufacturer_id keeps_get_part_type_id
  keeps_insert_part keeps_insert_mac

lemma keeps_insert_component: "keeps_stored (insert_component a b c)"
  unfolding insert_component_def by (simp add: keeps_basic keeps_methods)

lemma keeps_insert_typed: "keeps_stored (insert_typed a b c)"
  unfolding insert_typed_def by (simp add: keeps_basic keeps_methods keeps_insert_component)

lemma keeps_insert_all: "keeps_stored (insert_all a b c)"
  unfolding insert_all_def by (simp add: keeps_basic keeps_methods keeps_insert_component)

lemma keeps_insert_password: "keeps_stored (insert_password a)"
  unfolding insert_password_def by (simp add: keeps_basic keeps_methods)

lemma keeps_update_system: "keeps_stored (update_system ri item)"
  unfolding update_system_def
  by (cases item)
     (simp add: keeps_basic keeps_methods keeps_insert_typed keeps_insert_all keeps_insert_password)

lemma yieldsD:
  "yields m Q \<Longrightarrow> m s = (Inr x, s') \<Longrightarrow> grows (working s) (working s') \<and> Q x (working s')"
  by (simp add: yields_def)

lemma and_then_InrD:
  "and_then m f s = (Inr y, s') \<Longrightarrow> \<exists>x s1. m s = (Inr x, s1) \<and> f x s1 = (Inr y, s')"
  by (auto simp: and_then_def split: prod.splits sum.splits)

lemma yields_and_then:
  assumes m: "yields m Q1" and f: "\<And>x. yields (f x) (Q2 x)"
    and r: "\<And>x y t t'. Q1 x t \<Longrightarrow> grows t t' \<Longrightarrow> Q2 x y t' \<Longrightarrow> R y t'"
  shows "yields (and_then m f) R"
  unfolding yields_def
proof (intro allI impI)
  fix s y s'
  assume "and_then m f s = (Inr y, s')"
  then obtain x s1 where 1: "m s = (Inr x, s1)" and 2: "f x s1 = (Inr y, s')"
    by (blast dest: and_then_InrD)
  from yieldsD[OF m 1] have g1: "grows (working s) (working s1)" and q1: "Q1 x (working s1)"
    by simp_all
  from yieldsD[OF f 2] have g2: "grows (working s1) (working s')" and q2: "Q2 x y (working s')"
    by simp_all
  from g1 g2 have "grows (working s) (working s')" by (rule grows_trans)
  moreover from q1 g2 q2 have "R y (working s')" by (rule r)
  ultimately show "grows (working s) (working s') \<and> R y (working s')" ..
qed

lemma yields_weaken: "yields m Q \<Longrightarrow> (\<And>x t. Q x t \<Longrightarrow> R x t) \<Longrightarrow> yields m R"
  by (auto simp: yields_def)

lemma yields_seq:
  assumes "yields m (\<lambda>_. A)" and "stable A" and "yields k (\<lambda>_. B)"
  shows "yields (and_then m (\<lambda>_. k)) (\<lambda>_ t. A t \<and> B t)"
  using assms(1)
proof (rule yields_and_then)
  show "yields k (\<lambda>_. B)" for x :: 'a by (rule assms(3))
next
  fix t t'
  assume "A t" "grows t t'" "B t'"
  with assms(2) show "A t' \<and> B t'" by (auto simp: stable_def)
qed

lemma yields_bind:
  assumes "yields m Q" and "\<And>x. stable (Q x)" and "\<And>x. yields (f x) (\<lambda>_. B x)"
  shows "yields (and_then m f) (\<lambda>_ t. \<exists>x. Q x t \<and> B x t)"
  using assms(1)
proof (rule yields_and_then)
  show "yields (f x) (\<lambda>_. B x)" for x by (rule assms(3))
next
  fix x t t'
  assume "Q x t" "grows t t'" "B x t'"
  with assms(2)[of x] show "\<exists>x. Q x t' \<and> B x t'" by (auto simp: stable_def)
qed

lemma yields_for_each:
  assumes f: "\<And>x. x \<in> set xs \<Longrightarrow> yields (f x) (\<lambda>_. G x)" and g: "\<And>x. stable (G x)"
  shows "yields (for_each f xs) (\<lambda>_ t. \<forall>x \<in> set xs. G x t)"
  using f
proof (induction xs)
  case Nil
  show ?case by (simp add: yields_def grows_refl)
next
  case (Cons x xs)
  have e: "for_each f (x # xs) = and_then (f x) (\<lambda>_. for_each f xs)"
    by (rule ext) (simp add: and_then_def)
  have 1: "yields (f x) (\<lambda>_. G x)" by (rule Cons.prems) simp
  have 2: "yields (for_each f xs) (\<lambda>_ t. \<forall>x \<in> set xs. G x t)"
    by (rule Cons.IH) (simp add: Cons.prems)
  show ?case unfolding e
    by (rule yields_weaken[OF yields_seq[OF 1 g 2]]) simp
qed

lemma yields_succeed: "yields (succeed x) (\<lambda>_ _. True)"
  by (simp add: yields_def succeed_def grows_refl)

lemma yields_raise: "yields (raise e) Q"
  by (simp add: yields_def raise_def)

lemma yields_fails: "(\<And>s. \<exists>e. fst (m s) = Inl e) \<Longrightarrow> yields m Q"
  unfolding yields_def by (metis fst_conv sum.distinct(1))

lemma close_then_raise_fails: "\<exists>e'. fst (and_then (close b) (\<lambda>_. raise e) s) = Inl e'"
  by (auto simp: and_then_def raise_def split: prod.splits sum.splits)

lemma close_then_raise_ne: "and_then (close b) (\<lambda>_. raise e) s \<noteq> (Inr x, s')"
  by (auto simp: and_then_def raise_def split: prod.splits sum.splits)

lemma yields_attribute: "yields (attribute ri) (\<lambda>_ _. True)"
  by (simp add: yields_def attribute_def grows_refl)

lemma yields_dict_item: "yields (dict_item d k) (\<lambda>v _. map_of d k = Some v)"
  by (auto simp: yields_def dict_item_def raise_def succeed_def grows_refl split: option.splits)

lemma yields_log_insert: "yields (log_insert k i) (\<lambda>_ _. True)"
  by (auto simp: yields_def log_insert_def grows_refl split: option.splits)

lemma yields_first_id: "yields (first_id xs) (\<lambda>i _. \<exists>others. xs = i # others)"
  by (cases xs) (auto simp: yields_def first_id_def raise_def succeed_def grows_refl)

lemma query_InrD:
  "query q s = (Inr rows, s') \<Longrightarrow> \<exists>b. run_statement q (s\<lparr>budget := b\<rparr>) = (rows, s')"
proof -
  assume q: "query q s = (Inr rows, s')"
  show ?thesis
  proof (cases "cursor_execute q s")
    case (Pair r s1)
    show ?thesis
    proof (cases r)
      case None
      with Pair q have "and_then (close False) (\<lambda>_. raise (SystemExit (Some 1))) s1 = (Inr rows, s')"
        by (simp add: query_def)
      then show ?thesis by (simp add: close_then_raise_ne)
    next
      case (Some rs)
      with Pair q have c: "cursor_execute q s = (Some rows, s')" by (simp add: query_def)
      show ?thesis
      proof (cases "budget s")
        case None
        then have e: "s\<lparr>budget := None\<rparr> = s" by (cases s) simp
        from c None have r: "run_statement q s = (rows, s')"
          by (auto simp: cursor_execute_def split: if_splits prod.splits)
        have "run_statement q (s\<lparr>budget := None\<rparr>) = (rows, s')"
          unfolding e by (rule r)
        then show ?thesis ..
      next
        case (Some n)
        with c obtain k where "run_statement q (s\<lparr>budget := Some k\<rparr>) = (rows, s')"
          by (auto simp: cursor_execute_def split: if_splits prod.splits nat.splits)
        then show ?thesis ..
      qed
    qed
  qed
qed

lemma yields_select_system:
  "yields (query (Select_system x)) (\<lambda>rows t. rows = take 1 (ids_where (\<lambda>v. v = x) (production_system t)))"
  by (auto simp: yields_def grows_refl dest!: query_InrD)

lemma yields_select:
  "\<And>x. yields (query (Select_manufacturer x)) (\<lambda>_ _. True)"
  "\<And>x. yields (query (Select_type x)) (\<lambda>_ _. True)"
  by (auto simp: yields_def grows_refl dest!: query_InrD)

lemma yields_select_part:
  "yields (query (Select_part i m sn))
     (\<lambda>rows t. rows = map p_id (filter (part_matches i m sn) (production_part t)))"
  by (auto simp: yields_def grows_refl dest!: query_InrD)

lemma yields_select_mac:
  "yields (query (Select_mac i n))
     (\<lambda>rows t. rows = map m_id (filter (mac_matches i n) (production_mac t)))"
  by (auto simp: yields_def grows_refl dest!: query_InrD)

lemma yields_insert_part_stmt:
  "yields (query (Insert_part i sn m ty man a b c d e)) (\<lambda>_ t. has_part t i m sn)"
  by (auto simp: yields_def grows_def has_part_def part_matches_def dest!: query_InrD)

lemma yields_insert_mac_stmt:
  "yields (query (Insert_mac i n a)) (\<lambda>_ t. has_mac t i n)"
  by (auto simp: yields_def grows_def has_mac_def mac_matches_def dest!: query_InrD)

lemma stable_system_row: "stable (\<lambda>t. system_row t x i)"
  by (simp add: stable_def system_row_def grows_def)

lemma stable_has_part: "stable (\<lambda>t. has_part t i m sn)"
  unfolding stable_def by (blast intro: has_part_grows)

lemma stable_has_mac: "stable (\<lambda>t. has_mac t i n)"
  unfolding stable_def by (blast intro: has_mac_grows)

lemma stable_const: "stable (\<lambda>_. c)"
  by (simp add: stable_def)

lemma stable_conj: "stable A \<Longrightarrow> stable B \<Longrightarrow> stable (\<lambda>t. A t \<and> B t)"
  by (auto simp: stable_def)

lemma stable_ball: "(\<And>x. x \<in> X \<Longrightarrow> stable (G x)) \<Longrightarrow> stable (\<lambda>t. \<forall>x \<in> X. G x t)"
  by (auto simp: stable_def)

lemma yields_lookup_first:
  "yields (if length rows = 0 then and_then (close False) (\<lambda>_. raise (SystemExit None))
           else first_id rows) (\<lambda>i _. \<exists>others. rows = i # others)"
proof (cases "length rows = 0")
  case True
  then show ?thesis by (simp add: yields_def close_then_raise_ne)
next
  case False
  then show ?thesis using yields_first_id[of rows] by simp
qed

lemma yields_get_system_id: "yields (get_system_id x) (\<lambda>i t. system_row t x i)"
  unfolding get_system_id_def
proof (rule yields_and_then[OF yields_select_system])
  fix rows
  show "yields (if length rows = 0 then and_then (close False) (\<lambda>_. raise (SystemExit None))
                else first_id rows) (\<lambda>i _. \<exists>others. rows = i # others)"
    by (rule yields_lookup_first)
next
  fix rows :: "nat list" and i t t'
  assume "rows = take 1 (ids_where (\<lambda>v. v = x) (production_system t))" "grows t t'"
    "\<exists>others. rows = i # others"
  then show "system_row t' x i"
    by (cases "ids_where (\<lambda>v. v = x) (production_system t)") (auto simp: system_row_def grows_def)
qed

lemma yields_lookup_tail:
  "yields (if length rows = 0 then and_then (close False) (\<lambda>_. raise (SystemExit None))
           else first_id rows) (\<lambda>_ _. True)"
  by (rule yields_weaken[OF yields_lookup_first]) simp

lemma yields_get_manufacturer_id: "yields (get_manufacturer_id x) (\<lambda>_ _. True)"
  unfolding get_manufacturer_id_def
  by (rule yields_and_then[OF yields_select(1) yields_lookup_tail]) simp

lemma yields_get_part_type_id: "yields (get_part_type_id x) (\<lambda>_ _. True)"
  unfolding get_part_type_id_def
  by (rule yields_and_then[OF yields_select(2) yields_lookup_tail]) simp

lemma yields_logged_insert:
  "yields (query q) (\<lambda>_. A) \<Longrightarrow> stable A \<Longrightarrow>
   yields (and_then (query q) (\<lambda>result. and_then (first_id result) (\<lambda>new_id.
             and_then (log_insert k new_id) (\<lambda>_. first_id result)))) (\<lambda>_. A)"
proof -
  assume q: "yields (query q) (\<lambda>_. A)" and a: "stable A"
  have t1: "yields (and_then (log_insert k x) (\<lambda>_. first_id result)) (\<lambda>_ _. True)"
    for x and result :: "nat list"
    by (rule yields_and_then[OF yields_log_insert yields_first_id]) simp
  have t: "yields (and_then (first_id result) (\<lambda>new_id.
             and_then (log_insert k new_id) (\<lambda>_. first_id result))) (\<lambda>_ _. True)" for result
    by (rule yields_and_then[OF yields_first_id t1]) simp
  show ?thesis
    by (rule yields_and_then[OF q t]) (use a in \<open>auto simp: stable_def\<close>)
qed

lemma yields_insert_part: "yields (insert_part i m sn ty man) (\<lambda>_ t. has_part t i m sn)"
  unfolding insert_part_def
proof (rule yields_and_then[OF yields_select_part])
  fix result
  show "yields (if length result = 0
          then and_then (query (Insert_part i sn m ty man [] [] False [] []))
                 (\<lambda>result. and_then (first_id result) (\<lambda>new_id.
                    and_then (log_insert ''production_part'' new_id) (\<lambda>_. first_id result)))
          else first_id result)
         (\<lambda>_ t. length result = 0 \<longrightarrow> has_part t i m sn)"
  proof (cases "length result = 0")
    case True
    then show ?thesis
      using yields_logged_insert[OF yields_insert_part_stmt stable_has_part,
              of i sn m ty man "[]" "[]" False "[]" "[]" "''production_part''"]
      by (simp add: yields_def)
  next
    case False
    then show ?thesis
      using yields_first_id[of result] by (simp add: yields_def)
  qed
next
  fix result :: "nat list" and y :: nat and t t'
  assume r: "result = map p_id (filter (part_matches i m sn) (production_part t))"
    and g: "grows t t'" and h: "length result = 0 \<longrightarrow> has_part t' i m sn"
  show "has_part t' i m sn"
  proof (cases "length result = 0")
    case True
    with h show ?thesis by simp
  next
    case False
    with r have "filter (part_matches i m sn) (production_part t) \<noteq> []" by auto
    then have "has_part t i m sn"
      by (auto simp: has_part_def filter_empty_conv)
    with g show ?thesis by (rule has_part_grows)
  qed
qed

lemma yields_insert_mac: "yields (insert_mac i n a) (\<lambda>_ t. has_mac t i n)"
proof (cases "length a > 17")
  case True
  then show ?thesis by (simp add: insert_mac_def yields_def close_then_raise_ne)
next
  case False
  have "yields (and_then (query (Select_mac i n)) (\<lambda>result.
             if length result = 0
             then and_then (query (Insert_mac i n a))
                    (\<lambda>result. and_then (first_id result) (\<lambda>new_id.
                       and_then (log_insert ''production_mac'' new_id) (\<lambda>_. first_id result)))
             else first_id result)) (\<lambda>_ t. has_mac t i n)"
  proof (rule yields_and_then[OF yields_select_mac])
    fix result
    show "yields (if length result = 0
             then and_then (query (Insert_mac i n a))
                    (\<lambda>result. and_then (first_id result) (\<lambda>new_id.
                       and_then (log_insert ''production_mac'' new_id) (\<lambda>_. first_id result)))
             else first_id result)
           (\<lambda>_ t. length result = 0 \<longrightarrow> has_mac t i n)"
    proof (cases "length result = 0")
      case True
      then show ?thesis
        using yields_logged_insert[OF yields_insert_mac_stmt stable_has_mac,
                of i n a "''production_mac''"]
        by (simp add: yields_def)
    next
      case False
      then show ?thesis
        using yields_first_id[of result] by (simp add: yields_def)
    qed
  next
    fix result :: "nat list" and y :: nat and t t'
    assume r: "result = map m_id (filter (mac_matches i n) (production_mac t))"
      and g: "grows t t'" and h: "length result = 0 \<longrightarrow> has_mac t' i n"
    show "has_mac t' i n"
    proof (cases "length result = 0")
      case True
      with h show ?thesis by simp
    next
      case False
      with r have "filter (mac_matches i n) (production_mac t) \<noteq> []" by auto
      then have "has_mac t i n"
        by (auto simp: has_mac_def filter_empty_conv)
      with g show ?thesis by (rule has_mac_grows)
    qed
  qed
  with False show ?thesis by (simp add: insert_mac_def)
qed

lemma stable_part_done: "stable (part_done i p)"
  unfolding part_done_def by (intro stable_conj stable_has_part stable_const)

lemma yields_insert_component:
  "yields (insert_component i ty p) (\<lambda>_. part_done i p)"
  unfolding insert_component_def
proof (rule yields_and_then[OF yields_dict_item])
  fix v
  show "yields (and_then (get_manufacturer_id v) (\<lambda>manufacturer_id.
           insert_part i (c_model p) (c_serial p) ty manufacturer_id))
          (\<lambda>_ t. has_part t i (c_model p) (c_serial p))"
    by (rule yields_and_then[OF yields_get_manufacturer_id yields_insert_part]) simp
next
  fix v :: string and y :: nat and t t'
  assume "map_of MANUFACTURER_DICT (py_lower (c_manufacturer p)) = Some v"
    "has_part t' i (c_model p) (c_serial p)"
  then show "part_done i p t'" by (simp add: part_done_def unmapped_def)
qed

lemma yields_typed:
  assumes "\<And>ty. yields (k ty) Q"
  shows "yields (and_then (dict_item TYPE_DICT key) (\<lambda>part_type.
           and_then (get_part_type_id part_type) (\<lambda>part_type_id. k part_type_id))) Q"
proof -
  have "yields (and_then (get_part_type_id v) (\<lambda>part_type_id. k part_type_id)) Q" for v
    by (rule yields_and_then[OF yields_get_part_type_id assms]) simp
  then show ?thesis
    by (rule yields_and_then[OF yields_dict_item]) simp
qed

lemma yields_insert_typed: "yields (insert_typed i key p) (\<lambda>_. part_done i p)"
  unfolding insert_typed_def by (rule yields_typed) (rule yields_insert_component)

lemma yields_insert_all:
  "yields (insert_all i key ps) (\<lambda>_ t. \<forall>p \<in> set ps. part_done i p t)"
  unfolding insert_all_def
  by (rule yields_typed) (rule yields_for_each[OF yields_insert_component stable_part_done])

lemma yields_insert_password:
  "yields (insert_password i) (\<lambda>_ t. has_part t i ''IPMI Password'' ''Password123'')"
  unfolding insert_password_def
proof (rule yields_typed)
  fix ty
  have "yields (and_then (get_manufacturer_id v) (\<lambda>manufacturer_id.
           insert_part i ''IPMI Password'' ''Password123'' ty manufacturer_id))
          (\<lambda>_ t. has_part t i ''IPMI Password'' ''Password123'')" for v
    by (rule yields_and_then[OF yields_get_manufacturer_id yields_insert_part]) simp
  then show "yields (and_then (dict_item MANUFACTURER_DICT ''ixsystems'') (\<lambda>manufacturer.
           and_then (get_manufacturer_id manufacturer) (\<lambda>manufacturer_id.
             insert_part i ''IPMI Password'' ''Password123'' ty manufacturer_id)))
          (\<lambda>_ t. has_part t i ''IPMI Password'' ''Password123'')"
    by (rule yields_and_then[OF yields_dict_item]) simp
qed

lemma stable_imported: "stable (\<lambda>t. imported t item)"
proof -
  obtain x b where item: "item = (x, b)" by (cases item)
  show ?thesis
    unfolding stable_def
  proof (intro allI impI)
    fix t t'
    assume g: "grows t t'" and i: "imported t item"
    from g have s: "production_system t' = production_system t" by (simp add: grows_def)
    from i s g show "imported t' item"
      unfolding item imported_def
      by (auto split: list.splits intro: has_part_grows has_mac_grows)
  qed
qed

lemma stable_system_done: "stable (system_done item)"
  unfolding system_done_def by (intro stable_conj stable_imported stable_const)

lemma yields_update_system: "yields (update_system ri item) (\<lambda>_. system_done item)"
proof -
  obtain x b where item: "item = (x, b)" by (cases item)
  have tail: "yields
     (and_then (insert_typed i ''motherboard'' (motherboard b)) (\<lambda>_.
      and_then (for_each (insert_typed i ''cpu'') (cpu b)) (\<lambda>_.
      and_then (for_each (insert_typed i ''memory'') (memory b)) (\<lambda>_.
      and_then (insert_all i ''psu'' (psu b)) (\<lambda>_.
      and_then (insert_all i ''ssd'' (ssd b)) (\<lambda>_.
      and_then (insert_all i ''nic'' (nic b)) (\<lambda>_.
      and_then (insert_password i) (\<lambda>_.
      and_then (for_each (\<lambda>entry. insert_mac i (e_name entry) (py_upper (e_mac entry))) (mac b)) (\<lambda>_.
      and_then (attribute ri) (\<lambda>total. succeed ()))))))))))
     (\<lambda>_ t. part_done i (motherboard b) t \<and>
            ((\<forall>p \<in> set (cpu b). part_done i p t) \<and>
            ((\<forall>p \<in> set (memory b). part_done i p t) \<and>
            ((\<forall>p \<in> set (psu b). part_done i p t) \<and>
            ((\<forall>p \<in> set (ssd b). part_done i p t) \<and>
            ((\<forall>p \<in> set (nic b). part_done i p t) \<and>
            (has_part t i ''IPMI Password'' ''Password123'' \<and>
            ((\<forall>e \<in> set (mac b). has_mac t i (e_name e)) \<and> True))))))))" for i
    apply (rule yields_seq, rule yields_insert_typed, rule stable_part_done)
    apply (rule yields_seq, rule yields_for_each, rule yields_insert_typed, rule stable_part_done,
           rule stable_ball, rule stable_part_done)
    apply (rule yields_seq, rule yields_for_each, rule yields_insert_typed, rule stable_part_done,
           rule stable_ball, rule stable_part_done)
    apply (rule yields_seq, rule yields_insert_all, rule stable_ball, rule stable_part_done)
    apply (rule yields_seq, rule yields_insert_all, rule stable_ball, rule stable_part_done)
    apply (rule yields_seq, rule yields_insert_all, rule stable_ball, rule stable_part_done)
    apply (rule yields_seq, rule yields_insert_password, rule stable_has_part)
    apply (rule yields_seq, rule yields_for_each, rule yields_insert_mac, rule stable_has_mac,
           rule stable_ball, rule stable_has_mac)
    apply (rule yields_and_then[OF yields_attribute yields_succeed])
    apply simp
    done
  have "yields (and_then (attribute ri) (\<lambda>pre_insertion_total.
     and_then (get_system_id x) (\<lambda>i.
      and_then (insert_typed i ''motherboard'' (motherboard b)) (\<lambda>_.
      and_then (for_each (insert_typed i ''cpu'') (cpu b)) (\<lambda>_.
      and_then (for_each (insert_typed i ''memory'') (memory b)) (\<lambda>_.
      and_then (insert_all i ''psu'' (psu b)) (\<lambda>_.
      and_then (insert_all i ''ssd'' (ssd b)) (\<lambda>_.
      and_then (insert_all i ''nic'' (nic b)) (\<lambda>_.
      and_then (insert_password i) (\<lambda>_.
      and_then (for_each (\<lambda>entry. insert_mac i (e_name entry) (py_upper (e_mac entry))) (mac b)) (\<lambda>_.
      and_then (attribute ri) (\<lambda>total. succeed ())))))))))))) (\<lambda>_. system_done (x, b))"
  proof (rule yields_and_then[OF yields_attribute])
    show "yields (and_then (get_system_id x) (\<lambda>i.
      and_then (insert_typed i ''motherboard'' (motherboard b)) (\<lambda>_.
      and_then (for_each (insert_typed i ''cpu'') (cpu b)) (\<lambda>_.
      and_then (for_each (insert_typed i ''memory'') (memory b)) (\<lambda>_.
      and_then (insert_all i ''psu'' (psu b)) (\<lambda>_.
      and_then (insert_all i ''ssd'' (ssd b)) (\<lambda>_.
      and_then (insert_all i ''nic'' (nic b)) (\<lambda>_.
      and_then (insert_password i) (\<lambda>_.
      and_then (for_each (\<lambda>entry. insert_mac i (e_name entry) (py_upper (e_mac entry))) (mac b)) (\<lambda>_.
      and_then (attribute ri) (\<lambda>total. succeed ()))))))))))) (\<lambda>_. system_done (x, b))"
      for pre :: nat
    proof (rule yields_weaken[OF yields_bind[OF yields_get_system_id stable_system_row tail]])
      fix u :: unit and t
      assume "\<exists>i. system_row t x i \<and>
            (part_done i (motherboard b) t \<and>
            ((\<forall>p \<in> set (cpu b). part_done i p t) \<and>
            ((\<forall>p \<in> set (memory b). part_done i p t) \<and>
            ((\<forall>p \<in> set (psu b). part_done i p t) \<and>
            ((\<forall>p \<in> set (ssd b). part_done i p t) \<and>
            ((\<forall>p \<in> set (nic b). part_done i p t) \<and>
            (has_part t i ''IPMI Password'' ''Password123'' \<and>
            ((\<forall>e \<in> set (mac b). has_mac t i (e_name e)) \<and> True))))))))"
      then show "system_done (x, b) t"
        by (auto simp: system_done_def imported_def all_parts_def system_row_def part_done_def)
    qed
  qed simp
  then show ?thesis by (simp add: item update_system_def)
qed

lemma commit_InlD: "commit s = (Inl e, s') \<Longrightarrow> s' = s"
  by (auto simp: commit_def split: if_splits option.splits nat.splits)

lemma commit_InrD:
  "commit s = (Inr u, s') \<Longrightarrow>
   \<not> conn_closed s' \<and> stored s' = working s \<and> commits s' = Suc (commits s)"
  by (auto simp: commit_def split: if_splits option.splits nat.splits)

lemma keepsD: "keeps_stored m \<Longrightarrow> m s = (r, s') \<Longrightarrow> stored s' = stored s \<and> commits s' = commits s"
  unfolding keeps_stored_def by (metis snd_conv)

lemma yields_batch:
  "yields (for_each (update_system ri) systems) (\<lambda>_ t. \<forall>item \<in> set systems. system_done item t)"
  by (rule yields_for_each[OF yields_update_system stable_system_done])

lemma keeps_batch: "keeps_stored (for_each (update_system ri) systems)"
  by (rule keeps_for_each) (rule keeps_update_system)

lemma batch_body_Inl:
  assumes "batch_body ri systems s = (Inl e, s')"
  shows "stored s' = stored s \<and> commits s' = commits s"
proof -
  obtain r1 s1 where 1: "for_each (update_system ri) systems s = (r1, s1)"
    by (cases "for_each (update_system ri) systems s")
  from keepsD[OF keeps_batch 1] have k1: "stored s1 = stored s" "commits s1 = commits s"
    by simp_all
  show ?thesis
  proof (cases r1)
    case (Inl e1)
    with 1 assms k1 show ?thesis by (simp add: batch_body_def and_then_def)
  next
    case (Inr u)
    show ?thesis
    proof (cases "ri s1")
      case (Inl e2)
      with 1 Inr assms k1 show ?thesis
        by (simp add: batch_body_def and_then_def attribute_def)
    next
      case (Inr total)
      with 1 \<open>r1 = Inr u\<close> assms have "commit s1 = (Inl e, s')"
        by (simp add: batch_body_def and_then_def attribute_def)
      then have "s' = s1" by (rule commit_InlD)
      with k1 show ?thesis by simp
    qed
  qed
qed

lemma batch_body_Inr:
  assumes "batch_body ri systems s = (Inr u, s')"
  shows "\<not> conn_closed s' \<and> commits s' = Suc (commits s) \<and> grows (working s) (stored s') \<and>
         (\<forall>item \<in> set systems. system_done item (stored s'))"
proof -
  from assms obtain u1 s1 where 1: "for_each (update_system ri) systems s = (Inr u1, s1)"
    and 2: "and_then (attribute ri) (\<lambda>total. commit) s1 = (Inr u, s')"
    unfolding batch_body_def by (blast dest: and_then_InrD)
  from 2 obtain total s2 where 3: "attribute ri s1 = (Inr total, s2)" and 4: "commit s2 = (Inr u, s')"
    by (blast dest: and_then_InrD)
  from 3 have s2: "s2 = s1" by (auto simp: attribute_def)
  from keepsD[OF keeps_batch 1] have k1: "commits s1 = commits s" by simp
  from yieldsD[OF yields_batch 1] have g: "grows (working s) (working s1)"
    and d: "\<forall>item \<in> set systems. system_done item (working s1)" by simp_all
  from commit_InrD[OF 4] s2 have "\<not> conn_closed s'" "stored s' = working s1"
    "commits s' = Suc (commits s1)" by simp_all
  with k1 g d show ?thesis by simp
qed

lemma with_exit_result:
  assumes "with_exit body s = (r, s')"
  obtains rb s1 where "body s = (rb, s1)" "stored s' = stored s1" "commits s' = commits s1"
    "r = rb \<and> (conn_closed s1 \<longrightarrow> False) \<or> (\<exists>e. r = Inl e)"
proof -
  obtain rb s1 where b: "body s = (rb, s1)" by (cases "body s")
  obtain rc s2 where c: "close False s1 = (rc, s2)" by (cases "close False s1")
  from keepsD[OF keeps_close c] have k: "stored s2 = stored s1" "commits s2 = commits s1"
    by simp_all
  show ?thesis
  proof (cases rc)
    case (Inl e)
    with assms b c have "r = Inl e" "s' = s2" by (simp_all add: with_exit_def)
    with k b show ?thesis by (intro that[of rb s1]) auto
  next
    case (Inr u)
    with assms b c have r: "r = rb" "s' = s2" by (simp_all add: with_exit_def)
    from c Inr have "\<not> conn_closed s1"
      by (auto simp: close_def and_then_def rollback_def split: if_splits)
    with r k b show ?thesis by (intro that[of rb s1]) auto
  qed
qed

lemma with_exit_open:
  "body s = (rb, s1) \<Longrightarrow> \<not> conn_closed s1 \<Longrightarrow>
   with_exit body s = (rb, s1\<lparr>working := stored s1, conn_closed := True\<rparr>)"
  by (simp add: with_exit_def close_def and_then_def rollback_def)

lemma update_std_unfold:
  "update_std ri systems s =
     (if reachable s
      then with_exit (batch_body ri systems)
             (s\<lparr>working := stored s, conn_closed := False, insert_log := []\<rparr>)
      else (Inl (SystemExit None), s))"
  by (simp add: update_std_def batch_body_def and_then_def StdDatabase_init_def)

lemma update_std_cases:
  "update_std rows_inserted systems s = (r, s') \<Longrightarrow>
     (case r of
        Inl e \<Rightarrow> stored s' = stored s \<and> commits s' = commits s
      | Inr _ \<Rightarrow> commits s' = Suc (commits s) \<and> grows (stored s) (stored s') \<and>
                 (\<forall>item \<in> set systems. system_done item (stored s')))"
proof (cases "reachable s")
  case False
  assume "update_std rows_inserted systems s = (r, s')"
  with False show ?thesis by (auto simp: update_std_unfold)
next
  case True
  define s0 where "s0 = s\<lparr>working := stored s, conn_closed := False, insert_log := []\<rparr>"
  assume "update_std rows_inserted systems s = (r, s')"
  with True have w: "with_exit (batch_body rows_inserted systems) s0 = (r, s')"
    by (simp add: update_std_unfold s0_def)
  have s0: "stored s0 = stored s" "commits s0 = commits s" "working s0 = stored s"
    by (simp_all add: s0_def)
  from w obtain rb s1 where b: "batch_body rows_inserted systems s0 = (rb, s1)"
    and k: "stored s' = stored s1" "commits s' = commits s1"
    and r: "r = rb \<or> (\<exists>e. r = Inl e)"
    by (rule with_exit_result) blast
  show ?thesis
  proof (cases rb)
    case (Inl e)
    with b have "stored s1 = stored s0 \<and> commits s1 = commits s0" by (simp add: batch_body_Inl)
    moreover from r Inl obtain e' where "r = Inl e'" by auto
    ultimately show ?thesis using k s0 by simp
  next
    case (Inr u)
    with b have i: "\<not> conn_closed s1" "commits s1 = Suc (commits s0)"
      "grows (working s0) (stored s1)" "\<forall>item \<in> set systems. system_done item (stored s1)"
      using batch_body_Inr[of rows_inserted systems s0 u s1] by simp_all
    from with_exit_open[of "batch_body rows_inserted systems" s0 rb s1, OF b i(1)] w
    have "r = rb" by simp
    with Inr i k s0 show ?thesis by simp
  qed
qed

lemma query_healthy:
  "\<not> conn_closed s \<Longrightarrow> budget s = None \<Longrightarrow>
   query q s = (Inr (fst (run_statement q s)), snd (run_statement q s))"
  by (simp add: query_def cursor_execute_def split: prod.splits)

lemma first_id_map: "xs \<noteq> [] \<Longrightarrow> first_id (map f xs) = succeed (f (hd xs))"
  by (cases xs) (simp_all add: first_id_def)

lemma insert_part_existing:
  assumes "\<not> conn_closed s" "budget s = None"
    and "matching_parts system_id part_model part_serial s \<noteq> []"
  shows "insert_part system_id part_model part_serial type_id manufacturer_id s =
     (Inr (p_id (hd (matching_parts system_id part_model part_serial s))), s)"
  using assms
  by (simp add: insert_part_def and_then_def query_healthy first_id_map succeed_def
        matching_parts_def)

lemma insert_part_new:
  assumes "\<not> conn_closed s" "budget s = None"
    and "matching_parts system_id part_model part_serial s = []"
  shows "insert_part system_id part_model part_serial type_id manufacturer_id s =
     (Inr (part_id_seq s),
      s\<lparr>working := (working s)\<lparr>production_part := production_part (working s) @
            [default_part_row (part_id_seq s) system_id part_model part_serial type_id
               manufacturer_id]\<rparr>,
        part_id_seq := Suc (part_id_seq s),
        insert_log := (case map_of (insert_log s) ''production_part'' of
            Some ids \<Rightarrow> AList.update ''production_part'' (ids @ [part_id_seq s]) (insert_log s)
          | None \<Rightarrow> insert_log s @ [(''production_part'', [part_id_seq s])])\<rparr>)"
  using assms
  by (simp add: insert_part_def and_then_def query_healthy first_id_def succeed_def
        log_insert_def default_part_row_def matching_parts_def split: option.splits)

lemma logged_after:
  "map_of (case map_of log k of
            Some ids \<Rightarrow> AList.update k (ids @ [i]) log
          | None \<Rightarrow> log @ [(k, [i])]) k
   = Some ((case map_of log k of None \<Rightarrow> [] | Some ids \<Rightarrow> ids) @ [i])"
  by (auto simp: update_conv' map_add_def split: option.splits)


lemma for_each_append:
  "for_each f (xs @ ys) s =
     (case for_each f xs s of (Inl e, s') \<Rightarrow> (Inl e, s') | (Inr _, s') \<Rightarrow> for_each f ys s')"
  by (induction xs arbitrary: s) (auto split: prod.splits sum.splits)

lemma for_each_stops:
  assumes "\<And>s. \<exists>e s'. f x s = (Inl e, s')"
  shows "for_each f (xs @ x # ys) s = for_each f (xs @ [x]) s"
proof -
  have "for_each f (x # ys) s1 = for_each f [x] s1" for s1
    using assms[of s1] by auto
  then show ?thesis by (simp add: for_each_append split: prod.splits sum.splits)
qed

lemma insert_component_unmapped:
  "unmapped part \<Longrightarrow>
   insert_component system_id part_type_id part s =
     (Inl (KeyError (py_lower (c_manufacturer part))), s)"
  by (simp add: unmapped_def insert_component_def dict_item_def and_then_def raise_def)

lemma not_yielding:
  assumes "yields m Q" and "\<And>x t. \<not> Q x t"
  shows "\<exists>e s'. m s = (Inl e, s')"
proof (cases "m s")
  case (Pair r s')
  show ?thesis
  proof (cases r)
    case (Inl e)
    with Pair show ?thesis by simp
  next
    case (Inr x)
    with Pair yieldsD[OF assms(1), of s x s'] assms(2) show ?thesis by simp
  qed
qed

lemma insert_typed_unmapped:
  "unmapped part \<Longrightarrow> \<exists>e s'. insert_typed system_id key part s = (Inl e, s')"
  by (rule not_yielding[OF yields_insert_typed]) (simp add: part_done_def)

lemma update_system_unmapped:
  "part \<in> set (all_parts bundle) \<Longrightarrow> unmapped part \<Longrightarrow>
   \<exists>e s'. update_system ri (ix_serial, bundle) s = (Inl e, s')"
  by (rule not_yielding[OF yields_update_system]) (auto simp: system_done_def)

lemma tidyD:
  "tidy m \<Longrightarrow> settled s \<Longrightarrow> m s = (r, s') \<Longrightarrow>
   settled s' \<and> (\<forall>x. r = Inr x \<longrightarrow> conn_closed s' = conn_closed s)"
  unfolding tidy_def by blast

lemma tidy_succeed: "tidy (succeed x)"
  by (simp add: tidy_def succeed_def)

lemma tidy_raise: "tidy (raise e)"
  by (simp add: tidy_def raise_def)

lemma tidy_and_then:
  assumes m: "tidy m" and f: "\<And>x. tidy (f x)"
  shows "tidy (and_then m f)"
  unfolding tidy_def
proof (intro allI impI)
  fix s r s'
  assume q: "settled s" and a: "and_then m f s = (r, s')"
  obtain r1 s1 where 1: "m s = (r1, s1)" by (cases "m s")
  from tidyD[OF m q 1] have q1: "settled s1"
    and c1: "\<forall>x. r1 = Inr x \<longrightarrow> conn_closed s1 = conn_closed s" by simp_all
  show "settled s' \<and> (\<forall>x. r = Inr x \<longrightarrow> conn_closed s' = conn_closed s)"
  proof (cases r1)
    case (Inl e)
    with a 1 q1 show ?thesis by (auto simp: and_then_def)
  next
    case (Inr x)
    with a 1 have 2: "f x s1 = (r, s')" by (simp add: and_then_def)
    from tidyD[OF f q1 2] c1 Inr show ?thesis by simp
  qed
qed

lemma tidy_for_each: "(\<And>x. tidy (f x)) \<Longrightarrow> tidy (for_each f xs)"
proof (induction xs)
  case Nil
  show ?case by (simp add: tidy_def)
next
  case (Cons x xs)
  have "for_each f (x # xs) = and_then (f x) (\<lambda>_. for_each f xs)"
    by (rule ext) (simp add: and_then_def)
  then show ?case using Cons by (simp add: tidy_and_then)
qed

lemma tidy_close_raise: "tidy (and_then (close False) (\<lambda>_. raise e))"
  by (auto simp: tidy_def close_def and_then_def rollback_def raise_def settled_def
           split: if_splits)

lemma tidy_commit: "tidy commit"
  by (auto simp: tidy_def commit_def settled_def split: if_splits option.splits nat.splits)

lemma run_statement_conn:
  "conn_closed (snd (run_statement q s)) = conn_closed s"
  by (cases q) simp_all

lemma cursor_execute_Some:
  assumes "cursor_execute q s = (Some rows, s1)"
  shows "\<not> conn_closed s \<and> \<not> conn_closed s1"
proof -
  from assms have o: "\<not> conn_closed s"
    by (auto simp: cursor_execute_def split: if_splits)
  show ?thesis
  proof (cases "budget s")
    case None
    with assms o have "s1 = snd (run_statement q s)"
      by (auto simp: cursor_execute_def split: prod.splits)
    with run_statement_conn[of q s] o show ?thesis by simp
  next
    case (Some k)
    show ?thesis
    proof (cases k)
      case 0
      with assms o Some show ?thesis by (simp add: cursor_execute_def)
    next
      case (Suc n)
      with assms o Some have "s1 = snd (run_statement q (s\<lparr>budget := Some n\<rparr>))"
        by (auto simp: cursor_execute_def split: prod.splits)
      with run_statement_conn[of q "s\<lparr>budget := Some n\<rparr>"] o show ?thesis by simp
    qed
  qed
qed

lemma tidy_query: "tidy (query q)"
  unfolding tidy_def
proof (intro allI impI)
  fix s r s'
  assume st: "settled s" and a: "query q s = (r, s')"
  obtain c s1 where c: "cursor_execute q s = (c, s1)" by (cases "cursor_execute q s")
  show "settled s' \<and> (\<forall>x. r = Inr x \<longrightarrow> conn_closed s' = conn_closed s)"
  proof (cases c)
    case None
    with c have "s1 = s"
      by (auto simp: cursor_execute_def split: if_splits option.splits nat.splits prod.splits)
    with a c None have "and_then (close False) (\<lambda>_. raise (SystemExit (Some 1))) s = (r, s')"
      by (simp add: query_def)
    from tidyD[OF tidy_close_raise st this] show ?thesis by simp
  next
    case (Some rows)
    with a c have r: "r = Inr rows" "s' = s1" by (simp_all add: query_def)
    from c Some have "\<not> conn_closed s \<and> \<not> conn_closed s1"
      by (simp add: cursor_execute_Some)
    with r show ?thesis by (simp add: settled_def)
  qed
qed

lemma tidy_first_id: "tidy (first_id xs)"
  by (cases xs) (simp_all add: first_id_def tidy_raise tidy_succeed)

lemma tidy_log_insert: "tidy (log_insert k i)"
  by (auto simp: tidy_def log_insert_def settled_def split: option.splits)

lemma tidy_dict_item: "tidy (dict_item d k)"
  by (simp add: dict_item_def tidy_raise tidy_succeed split: option.splits)

lemma tidy_attribute: "tidy (attribute ri)"
  by (auto simp: tidy_def attribute_def)

lemmas tidy_basic = tidy_and_then tidy_for_each tidy_succeed tidy_raise tidy_close_raise
  tidy_query tidy_first_id tidy_log_insert tidy_dict_item tidy_attribute tidy_commit

lemma tidy_get_system_id: "tidy (get_system_id x)"
  unfolding get_system_id_def by (intro tidy_and_then) (simp_all add: tidy_basic)

lemma tidy_get_manufacturer_id: "tidy (get_manufacturer_id x)"
  unfolding get_manufacturer_id_def by (intro tidy_and_then) (simp_all add: tidy_basic)

lemma tidy_get_part_type_id: "tidy (get_part_type_id x)"
  unfolding get_part_type_id_def by (intro tidy_and_then) (simp_all add: tidy_basic)

lemma tidy_insert_part: "tidy (insert_part a b c d e)"
  unfolding insert_part_def by (intro tidy_and_then) (simp_all add: tidy_basic)

lemma tidy_insert_mac: "tidy (insert_mac a b c)"
  unfolding insert_mac_def by (simp add: tidy_basic)

lemmas tidy_methods = tidy_get_system_id tidy_get_manufacturer_id tidy_get_part_type_id
  tidy_insert_part tidy_insert_mac

lemma tidy_insert_component: "tidy (insert_component a b c)"
  unfolding insert_component_def by (simp add: tidy_basic tidy_methods)

lemma tidy_insert_typed: "tidy (insert_typed a b c)"
  unfolding insert_typed_def by (simp add: tidy_basic tidy_methods tidy_insert_component)

lemma tidy_insert_all: "tidy (insert_all a b c)"
  unfolding insert_all_def by (simp add: tidy_basic tidy_methods tidy_insert_component)

lemma tidy_insert_password: "tidy (insert_password a)"
  unfolding insert_password_def by (simp add: tidy_basic tidy_methods)

lemma tidy_update_system: "tidy (update_system ri item)"
  unfolding update_system_def
  by (cases item)
     (simp add: tidy_basic tidy_methods tidy_insert_typed tidy_insert_all tidy_insert_password)

lemma tidy_batch_body: "tidy (batch_body ri systems)"
  unfolding batch_body_def by (simp add: tidy_basic tidy_update_system)

lemma update_std_closes:
  assumes "update_std ri systems s = (r, s')" and "reachable s"
  shows "conn_closed s' \<and> working s' = stored s'"
proof -
  define s0 where "s0 = s\<lparr>working := stored s, conn_closed := False, insert_log := []\<rparr>"
  have st: "settled s0" by (simp add: settled_def s0_def)
  obtain rb s1 where b: "batch_body ri systems s0 = (rb, s1)"
    by (cases "batch_body ri systems s0")
  from tidyD[OF tidy_batch_body st b] have s1: "settled s1" by simp
  from assms b have w: "(case close False s1 of (Inl e, s'') \<Rightarrow> (Inl e, s'')
       | (Inr _, s'') \<Rightarrow> (rb, s'')) = (r, s')"
    by (simp add: update_std_unfold with_exit_def s0_def)
  show ?thesis
  proof (cases "conn_closed s1")
    case True
    with w have "s' = s1"
      by (simp add: close_def and_then_def rollback_def)
    with True s1 show ?thesis by (simp add: settled_def)
  next
    case False
    with w have "s' = s1\<lparr>working := stored s1, conn_closed := True\<rparr>"
      by (simp add: close_def and_then_def rollback_def)
    then show ?thesis by simp
  qed
qed


section \<open>Properties of the upsert of parts and addresses\<close>

text \<open>
  C1. Idempotence of the upsert of a part. On an open session whose statements succeed,
  for every state of the tables and every input: if a row of \<open>production_part\<close> matches
  (system, model, serial), \<open>insert_part\<close> returns the id of the first such row and
  changes nothing, the insert log included; if none does, it appends exactly one row
  with the given attributes and the fixed defaults (empty support number and Intel
  number, RMA false, empty revisions), appends the new id to the log and returns it.
  Running it again with the same input, starting from any insert log, returns the same
  id and changes nothing, so the log of a second run that starts empty stays empty; and
  the number of matching rows afterwards is one when there was none before, and
  otherwise what it was: exactly one whenever the table had at most one such row.
\<close>

theorem insert_part_idempotent:
  "\<not> conn_closed s \<Longrightarrow> budget s = None \<Longrightarrow>
   (case insert_part system_id part_model part_serial type_id manufacturer_id s of (r, s1) \<Rightarrow>
      (matching_parts system_id part_model part_serial s \<noteq> [] \<longrightarrow>
         r = Inr (p_id (hd (matching_parts system_id part_model part_serial s))) \<and> s1 = s) \<and>
      (matching_parts system_id part_model part_serial s = [] \<longrightarrow>
         r = Inr (part_id_seq s) \<and>
         s1 = s\<lparr>working := (working s)\<lparr>production_part := production_part (working s) @
                   [default_part_row (part_id_seq s) system_id part_model part_serial type_id
                      manufacturer_id]\<rparr>,
                part_id_seq := Suc (part_id_seq s), insert_log := insert_log s1\<rparr> \<and>
         logged ''production_part'' s1 = logged ''production_part'' s @ [part_id_seq s]) \<and>
      (\<forall>log. insert_part system_id part_model part_serial type_id manufacturer_id
                (s1\<lparr>insert_log := log\<rparr>) = (r, s1\<lparr>insert_log := log\<rparr>)) \<and>
      length (matching_parts system_id part_model part_serial s1) =
        max 1 (length (matching_parts system_id part_model part_serial s)) \<and>
      (length (matching_parts system_id part_model part_serial s) \<le> 1 \<longrightarrow>
         length (matching_parts system_id part_model part_serial s1) = 1))"
proof -
  assume h: "\<not> conn_closed s" "budget s = None"
  show ?thesis
  proof (cases "matching_parts system_id part_model part_serial s = []")
    case False
    have again: "insert_part system_id part_model part_serial type_id manufacturer_id
            (s\<lparr>insert_log := log\<rparr>) =
          (Inr (p_id (hd (matching_parts system_id part_model part_serial s))),
           s\<lparr>insert_log := log\<rparr>)" for log
      using insert_part_existing[of "s\<lparr>insert_log := log\<rparr>" system_id part_model part_serial
              type_id manufacturer_id] h False
      by (simp add: matching_parts_def)
    from False have "1 \<le> length (matching_parts system_id part_model part_serial s)"
      by (cases "matching_parts system_id part_model part_serial s") simp_all
    with False again show ?thesis
      by (auto simp: insert_part_existing[OF h False] max_def)
  next
    case True
    define row where "row = default_part_row (part_id_seq s) system_id part_model part_serial
      type_id manufacturer_id"
    define s1 where "s1 = snd (insert_part system_id part_model part_serial type_id manufacturer_id s)"
    have r: "insert_part system_id part_model part_serial type_id manufacturer_id s =
          (Inr (part_id_seq s), s1)"
      by (simp add: s1_def insert_part_new[OF h True])
    have s1: "s1 = s\<lparr>working := (working s)\<lparr>production_part := production_part (working s) @ [row]\<rparr>,
                part_id_seq := Suc (part_id_seq s), insert_log := insert_log s1\<rparr>"
      by (simp add: s1_def insert_part_new[OF h True] row_def)
    have l: "logged ''production_part'' s1 = logged ''production_part'' s @ [part_id_seq s]"
      by (simp add: s1_def insert_part_new[OF h True] logged_def logged_after)
    have rowm: "part_matches system_id part_model part_serial row"
      by (simp add: row_def default_part_row_def part_matches_def)
    have m1: "matching_parts system_id part_model part_serial s1 = [row]"
      using True rowm by (subst s1) (simp add: matching_parts_def)
    have h1: "\<not> conn_closed s1" "budget s1 = None"
      using h by (subst s1, simp)+
    have again: "insert_part system_id part_model part_serial type_id manufacturer_id
            (s1\<lparr>insert_log := log\<rparr>) = (Inr (part_id_seq s), s1\<lparr>insert_log := log\<rparr>)" for log
      using insert_part_existing[of "s1\<lparr>insert_log := log\<rparr>" system_id part_model part_serial
              type_id manufacturer_id] h1 m1
      by (simp add: matching_parts_def row_def default_part_row_def)
    show ?thesis
      using True s1 l again m1 by (simp add: r row_def)
  qed
qed


theorem insert_part_idempotent_witness:
  "\<not> conn_closed example_session \<and> budget example_session = None \<and>
   matching_parts 7 ''Xeon Gold'' ''0001'' example_session = [] \<and>
   (case insert_part 7 ''Xeon Gold'' ''0001'' 2 2 example_session of (r, s1) \<Rightarrow>
      r = Inr 100 \<and>
      production_part (working s1) = [default_part_row 100 7 ''Xeon Gold'' ''0001'' 2 2] \<and>
      logged ''production_part'' s1 = [100] \<and>
      insert_part 7 ''Xeon Gold'' ''0001'' 2 2 (s1\<lparr>insert_log := []\<rparr>) =
        (Inr 100, s1\<lparr>insert_log := []\<rparr>) \<and>
      length (matching_parts 7 ''Xeon Gold'' ''0001'' s1) = 1)"
proof -
  have h: "\<not> conn_closed example_session" "budget example_session = None"
    by (simp_all add: example_session_def example_state_def)
  have m: "matching_parts 7 ''Xeon Gold'' ''0001'' example_session = []"
    by (simp add: matching_parts_def example_session_def example_state_def example_tables_def)
  have p: "part_id_seq example_session = 100" "logged ''production_part'' example_session = []"
    "production_part (working example_session) = []"
    by (simp_all add: logged_def example_session_def example_state_def example_tables_def)
  obtain r s1 where i: "insert_part 7 ''Xeon Gold'' ''0001'' 2 2 example_session = (r, s1)"
    by (cases "insert_part 7 ''Xeon Gold'' ''0001'' 2 2 example_session")
  from insert_part_idempotent[OF h, of 7 "''Xeon Gold''" "''0001''" 2 2]
  have f: "r = Inr 100"
    "s1 = example_session\<lparr>working := (working example_session)\<lparr>production_part :=
              [default_part_row 100 7 ''Xeon Gold'' ''0001'' 2 2]\<rparr>,
            part_id_seq := 101, insert_log := insert_log s1\<rparr>"
    "logged ''production_part'' s1 = [100]"
    "insert_part 7 ''Xeon Gold'' ''0001'' 2 2 (s1\<lparr>insert_log := []\<rparr>) = (r, s1\<lparr>insert_log := []\<rparr>)"
    "length (matching_parts 7 ''Xeon Gold'' ''0001'' s1) = 1"
    by (simp_all add: i m p)
  have "production_part (working s1) = [default_part_row 100 7 ''Xeon Gold'' ''0001'' 2 2]"
    by (subst f(2)) simp
  with h m f show ?thesis by (simp add: i)
qed

text \<open>
  C7. Validation of the address. For an address of more than 17 characters
  \<open>insert_mac\<close> raises before any statement is sent: on an open connection the
  transaction is rolled back, the connection closed and \<open>sys.exit(1)\<close> raised, the
  sequences, the budget of statements and the insert log being what they were. For an
  address of at most 17 characters, on an open session whose statements succeed, the
  existence check on (system, name) runs: a matching row gives its id and no change,
  otherwise one row with the system, the name and the address is appended and its id
  logged and returned.
\<close>

theorem insert_mac_validation:
  "(17 < length mac_address \<longrightarrow>
      insert_mac system_id mac_name mac_address s =
        (if conn_closed s then (Inl OperationalError, s)
         else (Inl (SystemExit (Some 1)), s\<lparr>working := stored s, conn_closed := True\<rparr>))) \<and>
   (length mac_address \<le> 17 \<and> \<not> conn_closed s \<and> budget s = None \<longrightarrow>
      insert_mac system_id mac_name mac_address s =
        (if matching_macs system_id mac_name s \<noteq> []
         then (Inr (m_id (hd (matching_macs system_id mac_name s))), s)
         else (Inr (mac_id_seq s),
               s\<lparr>working := (working s)\<lparr>production_mac := production_mac (working s) @
                     [\<lparr>m_id = mac_id_seq s, m_system_id = system_id, m_name = mac_name,
                       m_mac = mac_address\<rparr>]\<rparr>,
                 mac_id_seq := Suc (mac_id_seq s),
                 insert_log := (case map_of (insert_log s) ''production_mac'' of
                     Some ids \<Rightarrow> AList.update ''production_mac'' (ids @ [mac_id_seq s]) (insert_log s)
                   | None \<Rightarrow> insert_log s @ [(''production_mac'', [mac_id_seq s])])\<rparr>)))"
proof (intro conjI impI)
  assume "17 < length mac_address"
  then show "insert_mac system_id mac_name mac_address s =
        (if conn_closed s then (Inl OperationalError, s)
         else (Inl (SystemExit (Some 1)), s\<lparr>working := stored s, conn_closed := True\<rparr>))"
    by (simp add: insert_mac_def close_def and_then_def rollback_def raise_def)
next
  assume "length mac_address \<le> 17 \<and> \<not> conn_closed s \<and> budget s = None"
  then show "insert_mac system_id mac_name mac_address s =
        (if matching_macs system_id mac_name s \<noteq> []
         then (Inr (m_id (hd (matching_macs system_id mac_name s))), s)
         else (Inr (mac_id_seq s),
               s\<lparr>working := (working s)\<lparr>production_mac := production_mac (working s) @
                     [\<lparr>m_id = mac_id_seq s, m_system_id = system_id, m_name = mac_name,
                       m_mac = mac_address\<rparr>]\<rparr>,
                 mac_id_seq := Suc (mac_id_seq s),
                 insert_log := (case map_of (insert_log s) ''production_mac'' of
                     Some ids \<Rightarrow> AList.update ''production_mac'' (ids @ [mac_id_seq s]) (insert_log s)
                   | None \<Rightarrow> insert_log s @ [(''production_mac'', [mac_id_seq s])])\<rparr>))"
    by (cases "matching_macs system_id mac_name s = []")
       (simp_all add: insert_mac_def and_then_def query_healthy first_id_map succeed_def
          log_insert_def matching_macs_def first_id_def[of "[x]" for x] split: option.splits)
qed

theorem insert_mac_validation_witness:
  "length ''AA:BB:CC:DD:EE:FF0'' = 18 \<and>
   insert_mac 7 ''NIC 1 MAC'' ''AA:BB:CC:DD:EE:FF0'' example_session =
     (Inl (SystemExit (Some 1)), example_session\<lparr>conn_closed := True\<rparr>) \<and>
   length ''AA:BB:CC:DD:EE:FF'' = 17 \<and>
   insert_mac 7 ''NIC 1 MAC'' ''AA:BB:CC:DD:EE:FF'' example_session =
     (Inr 50,
      example_session\<lparr>working := example_tables\<lparr>production_mac :=
           [\<lparr>m_id = 50, m_system_id = 7, m_name = ''NIC 1 MAC'', m_mac = ''AA:BB:CC:DD:EE:FF''\<rparr>]\<rparr>,
         mac_id_seq := 51, insert_log := [(''production_mac'', [50])]\<rparr>)"
proof -
  have l: "(17::nat) < length ''AA:BB:CC:DD:EE:FF0''" by simp
  have h: "length ''AA:BB:CC:DD:EE:FF'' \<le> 17 \<and> \<not> conn_closed example_session \<and>
           budget example_session = None"
    by (simp add: example_session_def example_state_def)
  have m: "matching_macs 7 ''NIC 1 MAC'' example_session = []"
    by (simp add: matching_macs_def example_session_def example_state_def example_tables_def)
  show ?thesis
    using insert_mac_validation[of "''AA:BB:CC:DD:EE:FF0''" 7 "''NIC 1 MAC''" example_session]
      insert_mac_validation[of "''AA:BB:CC:DD:EE:FF''" 7 "''NIC 1 MAC''" example_session]
      l h
    by (simp add: m) (simp add: example_session_def example_state_def example_tables_def)
qed

section \<open>Properties of the update of the database\<close>

text \<open>
  The class of the source defines no \<open>rows_inserted\<close>. With the class as it stands the
  first read raises \<open>AttributeError\<close>: every run that connects ends with that
  exception, the transaction rolled back and nothing committed.
\<close>

lemma update_std_as_written:
  "update_std rows_inserted_undefined systems s =
     (if reachable s
      then (Inl AttributeError, s\<lparr>working := stored s, conn_closed := True, insert_log := []\<rparr>)
      else (Inl (SystemExit None), s))"
proof -
  define s0 where "s0 = s\<lparr>working := stored s, conn_closed := False, insert_log := []\<rparr>"
  have "for_each (update_system rows_inserted_undefined) systems s0 =
          (if systems = [] then (Inr (), s0) else (Inl AttributeError, s0))"
    by (cases systems)
       (auto simp: update_system_def and_then_def attribute_def rows_inserted_undefined_def)
  then have "batch_body rows_inserted_undefined systems s0 = (Inl AttributeError, s0)"
    by (simp add: batch_body_def and_then_def attribute_def rows_inserted_undefined_def)
  then have "with_exit (batch_body rows_inserted_undefined systems) s0 =
          (Inl AttributeError, s0\<lparr>working := stored s0, conn_closed := True\<rparr>)"
    by (rule with_exit_open) (simp add: s0_def)
  then show ?thesis by (simp add: update_std_unfold s0_def)
qed

lemmas run_defs = update_std_def update_system_def and_then_def StdDatabase_init_def
  with_exit_def insert_typed_def insert_all_def insert_component_def insert_password_def
  insert_part_def insert_mac_def get_system_id_def get_manufacturer_id_def
  get_part_type_id_def query_def cursor_execute_def first_id_def succeed_def raise_def
  dict_item_def MANUFACTURER_DICT_def TYPE_DICT_def py_lower_def py_lower_char_def
  py_upper_def py_upper_char_def attribute_def rows_inserted_of_log_def commit_def
  rollback_def close_def log_insert_def ids_where_def part_matches_def mac_matches_def
  example_state_def example_tables_def example_bundle_def kingston_def

lemma example_run:
  "update_std rows_inserted_of_log [(''A1-102049'', example_bundle)] example_state =
     (Inr (),
      example_state\<lparr>
        stored := example_tables\<lparr>
          production_part :=
            [default_part_row 100 7 ''7D73CTO1WW'' ''J900AB12'' 1 1,
             default_part_row 101 7 ''Xeon Gold'' ''0001'' 2 2,
             default_part_row 102 7 ''IPMI Password'' ''Password123'' 7 3],
          production_mac :=
            [\<lparr>m_id = 50, m_system_id = 7, m_name = ''IPMI 1 MAC'',
              m_mac = ''AA:BB:CC:DD:EE:FF''\<rparr>]\<rparr>,
        working := example_tables\<lparr>
          production_part :=
            [default_part_row 100 7 ''7D73CTO1WW'' ''J900AB12'' 1 1,
             default_part_row 101 7 ''Xeon Gold'' ''0001'' 2 2,
             default_part_row 102 7 ''IPMI Password'' ''Password123'' 7 3],
          production_mac :=
            [\<lparr>m_id = 50, m_system_id = 7, m_name = ''IPMI 1 MAC'',
              m_mac = ''AA:BB:CC:DD:EE:FF''\<rparr>]\<rparr>,
        part_id_seq := 103, mac_id_seq := 51, commits := 1,
        insert_log := [(''production_part'', [100, 101, 102]), (''production_mac'', [50])]\<rparr>)"
  by (simp add: run_defs default_part_row_def)

lemma example_abort:
  "update_std rows_inserted_of_log
     [(''A1-102049'', example_bundle\<lparr>memory := [kingston]\<rparr>)] example_state =
     (Inl (KeyError ''kingston''),
      example_state\<lparr>part_id_seq := 102,
        insert_log := [(''production_part'', [100, 101])]\<rparr>)"
  by (simp add: run_defs)

text \<open>
  C2. Atomicity of the batch. Whatever the read of \<open>rows_inserted\<close> does, whatever the
  batch and the state of the server: if \<open>update_std\<close> ends with an exception (a failed
  connection, a failed statement, a missing system, type or manufacturer row, an
  unmapped manufacturer, an address that is too long, a failed commit), the durable
  tables are what they were and no transaction was committed; if it returns, exactly
  one transaction was committed, it only added rows, and every system of the batch is
  imported: its parts, the password and its addresses are rows of the durable tables.
  Whenever the connection was made, the run ends with the connection closed and the
  view of the transaction equal to the durable tables: what was not committed is
  rolled back.
\<close>

theorem update_std_atomic:
  "update_std rows_inserted systems s = (r, s') \<Longrightarrow>
     (case r of
        Inl e \<Rightarrow> stored s' = stored s \<and> commits s' = commits s
      | Inr _ \<Rightarrow> commits s' = Suc (commits s) \<and> grows (stored s) (stored s') \<and>
                 (\<forall>item \<in> set systems. imported (stored s') item)) \<and>
     (reachable s \<longrightarrow> conn_closed s' \<and> working s' = stored s')"
proof -
  assume run: "update_std rows_inserted systems s = (r, s')"
  from update_std_cases[OF run]
  have "case r of
        Inl e \<Rightarrow> stored s' = stored s \<and> commits s' = commits s
      | Inr _ \<Rightarrow> commits s' = Suc (commits s) \<and> grows (stored s) (stored s') \<and>
                 (\<forall>item \<in> set systems. imported (stored s') item)"
    by (cases r) (simp_all add: system_done_def)
  moreover have "reachable s \<longrightarrow> conn_closed s' \<and> working s' = stored s'"
    using update_std_closes[OF run] by blast
  ultimately show ?thesis ..
qed

theorem update_std_atomic_witness:
  "fst (update_std rows_inserted_of_log [(''A1-102049'', example_bundle)] example_state) = Inr () \<and>
   commits (snd (update_std rows_inserted_of_log [(''A1-102049'', example_bundle)] example_state)) = 1 \<and>
   imported
     (stored (snd (update_std rows_inserted_of_log [(''A1-102049'', example_bundle)] example_state)))
     (''A1-102049'', example_bundle) \<and>
   map p_id (production_part
     (stored (snd (update_std rows_inserted_of_log [(''A1-102049'', example_bundle)] example_state))))
     = [100, 101, 102] \<and>
   fst (update_std rows_inserted_of_log
          [(''A1-102049'', example_bundle\<lparr>memory := [kingston]\<rparr>)] example_state)
     = Inl (KeyError ''kingston'') \<and>
   stored (snd (update_std rows_inserted_of_log
          [(''A1-102049'', example_bundle\<lparr>memory := [kingston]\<rparr>)] example_state))
     = example_tables \<and>
   working (snd (update_std rows_inserted_of_log
          [(''A1-102049'', example_bundle\<lparr>memory := [kingston]\<rparr>)] example_state))
     = example_tables"
proof -
  have c: "commits example_state = 0" "stored example_state = example_tables"
    "reachable example_state"
    by (simp_all add: example_state_def)
  show ?thesis
    using update_std_atomic[OF example_run] update_std_atomic[OF example_abort] c
    by (simp add: example_run example_abort default_part_row_def)
qed

text \<open>
  C4. An unmapped manufacturer aborts the batch. Let a part of a bundle have a
  manufacturer whose lower-case form is not a key of the translation table. Its
  processing raises \<open>KeyError\<close> before any statement is sent for it; the loops over
  parts end there (the parts after it do not matter); and a batch that holds the bundle
  ends with an exception, with the durable tables as they were and nothing committed,
  in the same way whatever systems follow it in the batch.
\<close>

theorem unmapped_manufacturer_aborts:
  "part \<in> set (all_parts bundle) \<Longrightarrow> unmapped part \<Longrightarrow>
   insert_component system_id part_type_id part s =
     (Inl (KeyError (py_lower (c_manufacturer part))), s) \<and>
   for_each (insert_component system_id part_type_id) (earlier @ part # later) s =
     for_each (insert_component system_id part_type_id) (earlier @ [part]) s \<and>
   for_each (insert_typed system_id key) (earlier @ part # later) s =
     for_each (insert_typed system_id key) (earlier @ [part]) s \<and>
   (\<exists>e. fst (update_std rows_inserted (before @ (ix_serial, bundle) # after) s0) = Inl e) \<and>
   stored (snd (update_std rows_inserted (before @ (ix_serial, bundle) # after) s0)) = stored s0 \<and>
   commits (snd (update_std rows_inserted (before @ (ix_serial, bundle) # after) s0)) = commits s0 \<and>
   update_std rows_inserted (before @ (ix_serial, bundle) # after) s0 =
     update_std rows_inserted (before @ [(ix_serial, bundle)]) s0"
proof -
  assume p: "part \<in> set (all_parts bundle)" and u: "unmapped part"
  let ?run = "update_std rows_inserted (before @ (ix_serial, bundle) # after) s0"
  have 1: "insert_component system_id part_type_id part s =
     (Inl (KeyError (py_lower (c_manufacturer part))), s)"
    using u by (rule insert_component_unmapped)
  have 2: "for_each (insert_component system_id part_type_id) (earlier @ part # later) s =
     for_each (insert_component system_id part_type_id) (earlier @ [part]) s"
    by (rule for_each_stops) (simp add: insert_component_unmapped[OF u])
  have 3: "for_each (insert_typed system_id key) (earlier @ part # later) s =
     for_each (insert_typed system_id key) (earlier @ [part]) s"
    by (rule for_each_stops) (rule insert_typed_unmapped[OF u])
  obtain r s' where run: "?run = (r, s')" by (cases ?run)
  have "\<exists>e. r = Inl e"
  proof (cases r)
    case (Inl e)
    then show ?thesis by simp
  next
    case (Inr v)
    with update_std_cases[OF run] have "system_done (ix_serial, bundle) (stored s')" by simp
    with p u show ?thesis by (auto simp: system_done_def)
  qed
  then obtain e where e: "r = Inl e" ..
  with update_std_cases[OF run] have 5: "stored s' = stored s0" "commits s' = commits s0"
    by simp_all
  have "for_each (update_system rows_inserted) (before @ (ix_serial, bundle) # after) s1 =
        for_each (update_system rows_inserted) (before @ [(ix_serial, bundle)]) s1" for s1
    by (rule for_each_stops) (rule update_system_unmapped[OF p u])
  then have 7: "?run = update_std rows_inserted (before @ [(ix_serial, bundle)]) s0"
    by (simp add: update_std_unfold batch_body_def and_then_def with_exit_def)
  from e run have 4: "\<exists>e. fst ?run = Inl e" by simp
  from 5 run have 6: "stored (snd ?run) = stored s0" "commits (snd ?run) = commits s0"
    by simp_all
  from 1 2 3 4 6 7 show ?thesis by (intro conjI)
qed

theorem unmapped_manufacturer_aborts_witness:
  "kingston \<in> set (all_parts (example_bundle\<lparr>memory := [kingston]\<rparr>)) \<and> unmapped kingston \<and>
   insert_component 7 3 kingston example_session = (Inl (KeyError ''kingston''), example_session) \<and>
   update_std rows_inserted_of_log
     [(''A1-102049'', example_bundle\<lparr>memory := [kingston]\<rparr>), (''A1-102050'', example_bundle)]
     example_state =
     (Inl (KeyError ''kingston''),
      example_state\<lparr>part_id_seq := 102, insert_log := [(''production_part'', [100, 101])]\<rparr>)"
proof -
  have p: "kingston \<in> set (all_parts (example_bundle\<lparr>memory := [kingston]\<rparr>))"
    by (simp add: all_parts_def)
  have u: "unmapped kingston"
    by (simp add: unmapped_def kingston_def MANUFACTURER_DICT_def py_lower_def py_lower_char_def)
  have k: "py_lower (c_manufacturer kingston) = ''kingston''"
    by (simp add: kingston_def py_lower_def py_lower_char_def)
  show ?thesis
    using unmapped_manufacturer_aborts[OF p u, where system_id = 7 and part_type_id = 3
            and s = example_session and earlier = "[]" and later = "[]" and key = "''memory''"
            and rows_inserted = rows_inserted_of_log and before = "[]"
            and ix_serial = "''A1-102049''" and after = "[(''A1-102050'', example_bundle)]"
            and ?s0.0 = example_state]
    by (simp add: p u k example_abort)
qed


section \<open>Properties of the reading of components\<close>

lemma pbind_Inr_iff: "pbind r f = Inr y \<longleftrightarrow> (\<exists>x. r = Inr x \<and> f x = Inr y)"
  by (cases r) (simp_all add: pbind_def)

lemma pbind_simps [simp]: "pbind (Inr x) f = f x" "pbind (Inl e) f = Inl e"
  by (simp_all add: pbind_def)

lemma py_get_Inr_iff:
  "py_get v k d = Inr x \<longleftrightarrow> (\<exists>items. v = JObj items \<and> x = item_or items k d)"
  by (cases v) (auto simp: item_or_def)

lemma collect_Inr_iff:
  "collect f xs = Inr ys \<longleftrightarrow>
     (\<exists>yss. list_all2 (\<lambda>x found. f x = Inr found) xs yss \<and> ys = concat yss)"
proof (induction xs arbitrary: ys)
  case Nil
  show ?case by auto
next
  case (Cons x xs)
  show ?case
  proof
    assume "collect f (x # xs) = Inr ys"
    then obtain found more where f: "f x = Inr found" and c: "collect f xs = Inr more"
      and y: "ys = found @ more"
      by (auto simp: pbind_Inr_iff)
    from c Cons.IH obtain yss where "list_all2 (\<lambda>x found. f x = Inr found) xs yss"
      "more = concat yss" by blast
    with f y show "\<exists>yss. list_all2 (\<lambda>x found. f x = Inr found) (x # xs) yss \<and> ys = concat yss"
      by (intro exI[of _ "found # yss"]) simp
  next
    assume "\<exists>yss. list_all2 (\<lambda>x found. f x = Inr found) (x # xs) yss \<and> ys = concat yss"
    then obtain found yss where "f x = Inr found" "list_all2 (\<lambda>x found. f x = Inr found) xs yss"
      "ys = found @ concat yss"
      by (auto simp: list_all2_Cons1)
    with Cons.IH[of "concat yss"] show "collect f (x # xs) = Inr ys" by auto
  qed
qed

lemma memory_of_body_dict:
  "memory_of_body (JObj items) =
     Inr (if item_or items ''PartNumber'' (JStr []) = JNull \<and>
             item_or items ''SerialNumber'' (JStr []) = JNull
          then []
          else [\<lparr>c_manufacturer = item_or items ''Manufacturer'' (JStr []),
                 c_model = item_or items ''PartNumber'' (JStr []),
                 c_serial = item_or items ''SerialNumber'' (JStr [])\<rparr>])"
  by (simp add: memory_of_body_def item_or_def)

lemma memory_record_dict:
  "fetch_member net base_url member = Inr (JObj items) \<Longrightarrow>
   memory_record net base_url member =
     Inr (if item_or items ''PartNumber'' (JStr []) = JNull \<and>
             item_or items ''SerialNumber'' (JStr []) = JNull
          then []
          else [\<lparr>c_manufacturer = item_or items ''Manufacturer'' (JStr []),
                 c_model = item_or items ''PartNumber'' (JStr []),
                 c_serial = item_or items ''SerialNumber'' (JStr [])\<rparr>])"
  by (simp add: memory_record_def memory_of_body_dict)

lemma memory_record_InrD:
  "memory_record net base_url member = Inr found \<Longrightarrow>
   \<exists>items. fetch_member net base_url member = Inr (JObj items) \<and>
     found = (if item_or items ''PartNumber'' (JStr []) = JNull \<and>
             item_or items ''SerialNumber'' (JStr []) = JNull
          then []
          else [\<lparr>c_manufacturer = item_or items ''Manufacturer'' (JStr []),
                 c_model = item_or items ''PartNumber'' (JStr []),
                 c_serial = item_or items ''SerialNumber'' (JStr [])\<rparr>])"
proof -
  assume a: "memory_record net base_url member = Inr found"
  then obtain body where f: "fetch_member net base_url member = Inr body"
    and m: "memory_of_body body = Inr found"
    by (auto simp: memory_record_def pbind_Inr_iff)
  from m obtain items where b: "body = JObj items"
    by (auto simp: memory_of_body_def pbind_Inr_iff py_get_Inr_iff)
  from m b show ?thesis using f by (auto simp: memory_of_body_dict)
qed

lemma list_all2_image:
  "list_all2 (\<lambda>x y. \<exists>z. P x z \<and> y = f z) xs ys \<Longrightarrow>
   \<exists>zs. list_all2 P xs zs \<and> ys = map f zs"
proof (induction xs ys rule: list_all2_induct)
  case Nil
  show ?case by simp
next
  case (Cons x xs y ys)
  then obtain z zs where "P x z" "y = f z" "list_all2 P xs zs" "ys = map f zs" by auto
  then show ?case by (intro exI[of _ "z # zs"]) simp
qed

lemma members_of_InrD:
  "members_of body key = Inr members \<Longrightarrow>
   \<exists>items. body = JObj items \<and> members = py_iter (item_or items key (JArr []))"
proof -
  assume a: "members_of body key = Inr members"
  then obtain items where b: "body = JObj items"
    by (auto simp: members_of_def pbind_Inr_iff py_get_Inr_iff)
  let ?v = "item_or items key (JArr [])"
  from a b obtain n where n: "py_len ?v = Inr n"
    and m: "members = (if n = 0 then [] else py_iter ?v)"
    unfolding members_of_def pbind_Inr_iff py_get_Inr_iff by (auto split: if_splits)
  from n have "n = 0 \<Longrightarrow> py_iter ?v = []" by (cases ?v) auto
  with m b show ?thesis by auto
qed

lemma members_of_list:
  "members_of (JObj items) key = Inr members" if "item_or items key (JArr []) = JArr members"
  using that by (auto simp: members_of_def item_or_def)

lemma parse_memory_bodies:
  assumes "parse_memory net base_url = Inr records"
  shows "\<exists>body_items bodies.
     get_http_response_body net (base_url @ ''/redfish/v1/Systems/1/Memory'') =
       Inr (JObj body_items) \<and>
     list_all2 (\<lambda>member items. fetch_member net base_url member = Inr (JObj items))
       (py_iter (item_or body_items ''Members'' (JArr []))) bodies \<and>
     records = concat (map (\<lambda>items.
        if item_or items ''PartNumber'' (JStr []) = JNull \<and>
           item_or items ''SerialNumber'' (JStr []) = JNull
        then []
        else [\<lparr>c_manufacturer = item_or items ''Manufacturer'' (JStr []),
               c_model = item_or items ''PartNumber'' (JStr []),
               c_serial = item_or items ''SerialNumber'' (JStr [])\<rparr>]) bodies)"
proof -
  from assms obtain body members where
    g: "get_http_response_body net (base_url @ ''/redfish/v1/Systems/1/Memory'') = Inr body"
    and m: "members_of body ''Members'' = Inr members"
    and c: "collect (memory_record net base_url) members = Inr records"
    by (auto simp: parse_memory_def pbind_Inr_iff)
  from members_of_InrD[OF m] obtain body_items where b: "body = JObj body_items"
    and ms: "members = py_iter (item_or body_items ''Members'' (JArr []))" by auto
  from c obtain yss where
    l: "list_all2 (\<lambda>x found. memory_record net base_url x = Inr found) members yss"
    and r: "records = concat yss"
    by (auto simp: collect_Inr_iff)
  let ?rule = "\<lambda>items.
        if item_or items ''PartNumber'' (JStr []) = JNull \<and>
           item_or items ''SerialNumber'' (JStr []) = JNull
        then []
        else [\<lparr>c_manufacturer = item_or items ''Manufacturer'' (JStr []),
               c_model = item_or items ''PartNumber'' (JStr []),
               c_serial = item_or items ''SerialNumber'' (JStr [])\<rparr>]"
  from l have "list_all2 (\<lambda>x found. \<exists>items. fetch_member net base_url x = Inr (JObj items) \<and>
       found = ?rule items) members yss"
    by (rule list_all2_mono) (rule memory_record_InrD)
  from list_all2_image[OF this] obtain bodies where
    "list_all2 (\<lambda>member items. fetch_member net base_url member = Inr (JObj items)) members bodies"
    "yss = map ?rule bodies" by blast
  with g b ms r show ?thesis by blast
qed

lemma parse_memory_returns:
  assumes g: "get_http_response_body net (base_url @ ''/redfish/v1/Systems/1/Memory'') =
       Inr (JObj body_items)"
    and v: "item_or body_items ''Members'' (JArr []) = JArr members"
    and l: "list_all2 (\<lambda>member items. fetch_member net base_url member = Inr (JObj items))
       members bodies"
  shows "parse_memory net base_url = Inr (concat (map (\<lambda>items.
        if item_or items ''PartNumber'' (JStr []) = JNull \<and>
           item_or items ''SerialNumber'' (JStr []) = JNull
        then []
        else [\<lparr>c_manufacturer = item_or items ''Manufacturer'' (JStr []),
               c_model = item_or items ''PartNumber'' (JStr []),
               c_serial = item_or items ''SerialNumber'' (JStr [])\<rparr>]) bodies))"
proof -
  let ?rule = "\<lambda>items.
        if item_or items ''PartNumber'' (JStr []) = JNull \<and>
           item_or items ''SerialNumber'' (JStr []) = JNull
        then []
        else [\<lparr>c_manufacturer = item_or items ''Manufacturer'' (JStr []),
               c_model = item_or items ''PartNumber'' (JStr []),
               c_serial = item_or items ''SerialNumber'' (JStr [])\<rparr>]"
  from l have "list_all2 (\<lambda>member found. memory_record net base_url member = Inr found)
      members (map ?rule bodies)"
    unfolding list_all2_map2 by (rule list_all2_mono) (rule memory_record_dict)
  then have "collect (memory_record net base_url) members = Inr (concat (map ?rule bodies))"
    unfolding collect_Inr_iff by blast
  with g members_of_list[OF v] show ?thesis by (simp add: parse_memory_def)
qed

lemma bundle_memory:
  "parse_system_components net ip = Inr bundle \<Longrightarrow>
   parse_memory net (''https://'' @ ip) = Inr (memory bundle)"
  by (auto simp: parse_system_components_def Let_def pbind_Inr_iff)

lemma bundle_mac:
  "parse_system_components net ip = Inr bundle \<Longrightarrow>
   \<exists>nic_macs bmc_mac. parse_nic_mac net (''https://'' @ ip) = Inr nic_macs \<and>
      parse_bmc_mac net (''https://'' @ ip) = Inr bmc_mac \<and> mac bundle = nic_macs @ [bmc_mac]"
  by (auto simp: parse_system_components_def Let_def pbind_Inr_iff)




lemma example_memory:
  "parse_memory example_net ''https://10.48.143.80'' =
     Inr [\<lparr>c_manufacturer = JStr ''Samsung'', c_model = JStr ''M393A4K40DB3-CWE'',
            c_serial = JStr ''0123ABCD''\<rparr>,
          \<lparr>c_manufacturer = JStr [], c_model = JStr [], c_serial = JStr []\<rparr>,
          \<lparr>c_manufacturer = JNull, c_model = JStr ''HMA84GR7CJR4N-XN'', c_serial = JNull\<rparr>]"
  by (simp add: parse_memory_def members_of_def memory_record_def fetch_member_def
        memory_of_body_def get_http_response_body_def example_net_def)

lemma example_nic_mac:
  "parse_nic_mac example_net ''https://10.48.143.80'' =
     Inr [\<lparr>e_name = ''NIC 1 MAC'', e_mac = JStr ''7c:8a:e1:00:00:01''\<rparr>,
          \<lparr>e_name = ''NIC 2 MAC'', e_mac = JStr ''7c:8a:e1:00:00:02''\<rparr>]"
  by (simp add: parse_nic_mac_def members_of_def get_http_response_body_def example_net_def
        nic_mac_name_def)

lemma example_components:
  "parse_system_components example_net ''10.48.143.80'' =
     Inr \<lparr>motherboard = \<lparr>c_manufacturer = JStr ''Lenovo'', c_model = JStr [], c_serial = JStr []\<rparr>,
          cpu = [],
          memory = [\<lparr>c_manufacturer = JStr ''Samsung'', c_model = JStr ''M393A4K40DB3-CWE'',
                      c_serial = JStr ''0123ABCD''\<rparr>,
                    \<lparr>c_manufacturer = JStr [], c_model = JStr [], c_serial = JStr []\<rparr>,
                    \<lparr>c_manufacturer = JNull, c_model = JStr ''HMA84GR7CJR4N-XN'',
                      c_serial = JNull\<rparr>],
          psu = [], ssd = [], nic = [],
          mac = [\<lparr>e_name = ''NIC 1 MAC'', e_mac = JStr ''7c:8a:e1:00:00:01''\<rparr>,
                 \<lparr>e_name = ''NIC 2 MAC'', e_mac = JStr ''7c:8a:e1:00:00:02''\<rparr>,
                 \<lparr>e_name = ''IPMI 1 MAC'', e_mac = JStr []\<rparr>]\<rparr>"
proof -
  have other: "get_http_response_body example_net ''https://10.48.143.80/redfish/v1/Chassis/1''
      = Inr (JObj [])"
    "get_http_response_body example_net ''https://10.48.143.80/redfish/v1/Systems/1/Processors''
      = Inr (JObj [])"
    "get_http_response_body example_net ''https://10.48.143.80/redfish/v1/Chassis/1/Power''
      = Inr (JObj [])"
    "get_http_response_body example_net ''https://10.48.143.80/redfish/v1/Chassis/1/NetworkAdapters''
      = Inr (JObj [])"
    "get_http_response_body example_net
       ''https://10.48.143.80/redfish/v1/Managers/1/EthernetInterfaces/NIC'' = Inr (JObj [])"
    by (simp_all add: get_http_response_body_def example_net_def)
  have m: "parse_memory example_net (''https://'' @ ''10.48.143.80'') =
     Inr [\<lparr>c_manufacturer = JStr ''Samsung'', c_model = JStr ''M393A4K40DB3-CWE'',
            c_serial = JStr ''0123ABCD''\<rparr>,
          \<lparr>c_manufacturer = JStr [], c_model = JStr [], c_serial = JStr []\<rparr>,
          \<lparr>c_manufacturer = JNull, c_model = JStr ''HMA84GR7CJR4N-XN'', c_serial = JNull\<rparr>]"
    using example_memory by simp
  have n: "parse_nic_mac example_net (''https://'' @ ''10.48.143.80'') =
     Inr [\<lparr>e_name = ''NIC 1 MAC'', e_mac = JStr ''7c:8a:e1:00:00:01''\<rparr>,
          \<lparr>e_name = ''NIC 2 MAC'', e_mac = JStr ''7c:8a:e1:00:00:02''\<rparr>]"
    using example_nic_mac by simp
  show ?thesis
    unfolding parse_system_components_def Let_def
    by (simp only: m n pbind_simps)
       (simp add: other parse_motherboard_def parse_ssd_def parse_cpu_def parse_psu_def
          parse_nic_def parse_bmc_mac_def members_of_def)
qed

lemma get_http_response_body_cases:
  "get_http_response_body net url =
     (case net url of
        Raises \<Rightarrow> Inl RequestException
      | Response False content \<Rightarrow> Inr (JObj [])
      | Response True None \<Rightarrow> Inl AttributeError
      | Response True (Some body) \<Rightarrow> Inr body)"
  by (simp add: get_http_response_body_def split: http_outcome.splits option.splits bool.splits)

text \<open>
  C5. Leniency of the HTTP client, at three inputs where the function does not return a
  dictionary. When \<open>requests.get\<close> raises (the host of the URL cannot be reached), the
  exception leaves \<open>get_http_response_body\<close> and \<open>parse_system_components\<close>: the
  call is outside the \<open>try\<close>. When the response is successful and its body is JSON
  that is not an object, the parsed value (here a list) is returned as it is. When the
  response is successful and its body cannot be decoded, \<open>AttributeError\<close> leaves the
  function and \<open>parse_system_components\<close>: the handler names an exception class that
  the package \<open>requests\<close> does not have.
\<close>

theorem get_http_response_body_escapes:
  "get_http_response_body (\<lambda>url. Raises) ''https://10.48.143.80/redfish/v1/Chassis/1'' =
     Inl RequestException \<and>
   parse_system_components (\<lambda>url. Raises) ''10.48.143.80'' = Inl RequestException \<and>
   get_http_response_body (\<lambda>url. Response True (Some (JArr [])))
     ''https://10.48.143.80/redfish/v1/Chassis/1'' = Inr (JArr []) \<and>
   \<not> is_dict (JArr []) \<and>
   get_http_response_body (\<lambda>url. Response True None)
     ''https://10.48.143.80/redfish/v1/Chassis/1'' = Inl AttributeError \<and>
   parse_system_components (\<lambda>url. Response True None) ''10.48.143.80'' = Inl AttributeError"
  by (simp add: get_http_response_body_def parse_system_components_def)

text \<open>
  C3, as amended. A memory body that is a dictionary yields no record exactly when the
  values read for \<open>PartNumber\<close> and \<open>SerialNumber\<close> are both \<open>None\<close> (JSON null),
  and otherwise exactly one record, holding the three values read; a key that the body
  does not have reads as the empty string, which is not \<open>None\<close>. The loop applies this
  rule to the body fetched for each member: \<open>memory_record\<close>, the body of the loop,
  returns what the rule gives for the fetched body, and the memory list that
  \<open>parse_memory\<close> returns, which is the memory list of the bundle, is the
  concatenation, in the order of the members, of what the rule gives for the bodies
  fetched; whenever the collection and the bodies of its members are dictionaries,
  \<open>parse_memory\<close> returns that list.
\<close>

theorem memory_slot_skip:
  "memory_of_body (JObj items) =
     Inr (if item_or items ''PartNumber'' (JStr []) = JNull \<and>
             item_or items ''SerialNumber'' (JStr []) = JNull
          then []
          else [\<lparr>c_manufacturer = item_or items ''Manufacturer'' (JStr []),
                 c_model = item_or items ''PartNumber'' (JStr []),
                 c_serial = item_or items ''SerialNumber'' (JStr [])\<rparr>]) \<and>
   (key_absent (JObj items) key \<longrightarrow> item_or items key (JStr []) = JStr []) \<and>
   (collect (memory_record net base_url) members = Inr records \<longleftrightarrow>
      (\<exists>per_member.
         list_all2 (\<lambda>member found. memory_record net base_url member = Inr found)
           members per_member \<and>
         records = concat per_member)) \<and>
   (parse_system_components net ip = Inr bundle \<longrightarrow>
      parse_memory net (''https://'' @ ip) = Inr (memory bundle)) \<and>
   (fetch_member net base_url member = Inr (JObj items) \<longrightarrow>
      memory_record net base_url member =
     Inr (if item_or items ''PartNumber'' (JStr []) = JNull \<and>
             item_or items ''SerialNumber'' (JStr []) = JNull
          then []
          else [\<lparr>c_manufacturer = item_or items ''Manufacturer'' (JStr []),
                 c_model = item_or items ''PartNumber'' (JStr []),
                 c_serial = item_or items ''SerialNumber'' (JStr [])\<rparr>])) \<and>
   (parse_memory net base_url = Inr records \<longrightarrow>
      (\<exists>body_items bodies.
     get_http_response_body net (base_url @ ''/redfish/v1/Systems/1/Memory'') =
       Inr (JObj body_items) \<and>
     list_all2 (\<lambda>member items. fetch_member net base_url member = Inr (JObj items))
       (py_iter (item_or body_items ''Members'' (JArr []))) bodies \<and>
     records = concat (map (\<lambda>items.
        if item_or items ''PartNumber'' (JStr []) = JNull \<and>
           item_or items ''SerialNumber'' (JStr []) = JNull
        then []
        else [\<lparr>c_manufacturer = item_or items ''Manufacturer'' (JStr []),
               c_model = item_or items ''PartNumber'' (JStr []),
               c_serial = item_or items ''SerialNumber'' (JStr [])\<rparr>]) bodies))) \<and>
   (get_http_response_body net (base_url @ ''/redfish/v1/Systems/1/Memory'') =
       Inr (JObj body_items) \<and>
    item_or body_items ''Members'' (JArr []) = JArr members \<and>
    list_all2 (\<lambda>member items. fetch_member net base_url member = Inr (JObj items))
       members bodies \<longrightarrow>
      parse_memory net base_url = Inr (concat (map (\<lambda>items.
        if item_or items ''PartNumber'' (JStr []) = JNull \<and>
           item_or items ''SerialNumber'' (JStr []) = JNull
        then []
        else [\<lparr>c_manufacturer = item_or items ''Manufacturer'' (JStr []),
               c_model = item_or items ''PartNumber'' (JStr []),
               c_serial = item_or items ''SerialNumber'' (JStr [])\<rparr>]) bodies)))"
proof (intro conjI impI)
  show "memory_of_body (JObj items) =
     Inr (if item_or items ''PartNumber'' (JStr []) = JNull \<and>
             item_or items ''SerialNumber'' (JStr []) = JNull
          then []
          else [\<lparr>c_manufacturer = item_or items ''Manufacturer'' (JStr []),
                 c_model = item_or items ''PartNumber'' (JStr []),
                 c_serial = item_or items ''SerialNumber'' (JStr [])\<rparr>])"
    by (rule memory_of_body_dict)
next
  assume "key_absent (JObj items) key"
  then show "item_or items key (JStr []) = JStr []"
    by (simp add: key_absent_def item_or_def)
next
  show "collect (memory_record net base_url) members = Inr records \<longleftrightarrow>
      (\<exists>per_member.
         list_all2 (\<lambda>member found. memory_record net base_url member = Inr found)
           members per_member \<and>
         records = concat per_member)"
    by (rule collect_Inr_iff)
next
  assume "parse_system_components net ip = Inr bundle"
  then show "parse_memory net (''https://'' @ ip) = Inr (memory bundle)"
    by (rule bundle_memory)
next
  assume "fetch_member net base_url member = Inr (JObj items)"
  then show "memory_record net base_url member =
     Inr (if item_or items ''PartNumber'' (JStr []) = JNull \<and>
             item_or items ''SerialNumber'' (JStr []) = JNull
          then []
          else [\<lparr>c_manufacturer = item_or items ''Manufacturer'' (JStr []),
                 c_model = item_or items ''PartNumber'' (JStr []),
                 c_serial = item_or items ''SerialNumber'' (JStr [])\<rparr>])"
    by (rule memory_record_dict)
next
  assume "parse_memory net base_url = Inr records"
  then show "\<exists>body_items bodies.
     get_http_response_body net (base_url @ ''/redfish/v1/Systems/1/Memory'') =
       Inr (JObj body_items) \<and>
     list_all2 (\<lambda>member items. fetch_member net base_url member = Inr (JObj items))
       (py_iter (item_or body_items ''Members'' (JArr []))) bodies \<and>
     records = concat (map (\<lambda>items.
        if item_or items ''PartNumber'' (JStr []) = JNull \<and>
           item_or items ''SerialNumber'' (JStr []) = JNull
        then []
        else [\<lparr>c_manufacturer = item_or items ''Manufacturer'' (JStr []),
               c_model = item_or items ''PartNumber'' (JStr []),
               c_serial = item_or items ''SerialNumber'' (JStr [])\<rparr>]) bodies)"
    by (rule parse_memory_bodies)
next
  assume "get_http_response_body net (base_url @ ''/redfish/v1/Systems/1/Memory'') =
       Inr (JObj body_items) \<and>
    item_or body_items ''Members'' (JArr []) = JArr members \<and>
    list_all2 (\<lambda>member items. fetch_member net base_url member = Inr (JObj items))
       members bodies"
  then show "parse_memory net base_url = Inr (concat (map (\<lambda>items.
        if item_or items ''PartNumber'' (JStr []) = JNull \<and>
           item_or items ''SerialNumber'' (JStr []) = JNull
        then []
        else [\<lparr>c_manufacturer = item_or items ''Manufacturer'' (JStr []),
               c_model = item_or items ''PartNumber'' (JStr []),
               c_serial = item_or items ''SerialNumber'' (JStr [])\<rparr>]) bodies))"
    using parse_memory_returns[of net base_url body_items members bodies] by blast
qed

theorem memory_slot_skip_witness:
  "memory_of_body (JObj [(''Manufacturer'', JNull), (''PartNumber'', JNull),
      (''SerialNumber'', JNull)]) = Inr [] \<and>
   memory_of_body (JObj [(''Manufacturer'', JStr ''Samsung''), (''PartNumber'', JNull),
      (''SerialNumber'', JStr ''0123ABCD'')]) =
     Inr [\<lparr>c_manufacturer = JStr ''Samsung'', c_model = JNull, c_serial = JStr ''0123ABCD''\<rparr>] \<and>
   key_absent (JObj [(''Name'', JStr ''DIMM 3'')]) ''PartNumber'' \<and>
   item_or [(''Name'', JStr ''DIMM 3'')] ''PartNumber'' (JStr []) = JStr [] \<and>
   parse_memory example_net (''https://'' @ ''10.48.143.80'') =
     Inr [\<lparr>c_manufacturer = JStr ''Samsung'', c_model = JStr ''M393A4K40DB3-CWE'',
            c_serial = JStr ''0123ABCD''\<rparr>,
          \<lparr>c_manufacturer = JStr [], c_model = JStr [], c_serial = JStr []\<rparr>,
          \<lparr>c_manufacturer = JNull, c_model = JStr ''HMA84GR7CJR4N-XN'', c_serial = JNull\<rparr>] \<and>
   fetch_member example_net ''https://10.48.143.80'' (JObj [(''@odata.id'', JStr ''/redfish/v1/Systems/1/Memory/2'')]) =
     Inr (JObj [(''Manufacturer'', JNull), (''PartNumber'', JNull), (''SerialNumber'', JNull)]) \<and>
   memory_record example_net ''https://10.48.143.80'' (JObj [(''@odata.id'', JStr ''/redfish/v1/Systems/1/Memory/2'')]) = Inr [] \<and>
   fetch_member example_net ''https://10.48.143.80'' (JObj [(''@odata.id'', JStr ''/redfish/v1/Systems/1/Memory/4'')]) =
     Inr (JObj [(''Manufacturer'', JNull), (''PartNumber'', JStr ''HMA84GR7CJR4N-XN''),
        (''SerialNumber'', JNull)]) \<and>
   memory_record example_net ''https://10.48.143.80'' (JObj [(''@odata.id'', JStr ''/redfish/v1/Systems/1/Memory/4'')]) =
     Inr [\<lparr>c_manufacturer = JNull, c_model = JStr ''HMA84GR7CJR4N-XN'', c_serial = JNull\<rparr>] \<and>
   list_all2 (\<lambda>member items. fetch_member example_net ''https://10.48.143.80'' member =
       Inr (JObj items))
     [JObj [(''@odata.id'', JStr ''/redfish/v1/Systems/1/Memory/1'')],
      JObj [(''@odata.id'', JStr ''/redfish/v1/Systems/1/Memory/2'')],
      JObj [(''@odata.id'', JStr ''/redfish/v1/Systems/1/Memory/3'')],
      JObj [(''@odata.id'', JStr ''/redfish/v1/Systems/1/Memory/4'')]]
     [[(''Manufacturer'', JStr ''Samsung''), (''PartNumber'', JStr ''M393A4K40DB3-CWE''),
        (''SerialNumber'', JStr ''0123ABCD'')],
      [(''Manufacturer'', JNull), (''PartNumber'', JNull), (''SerialNumber'', JNull)],
      [],
      [(''Manufacturer'', JNull), (''PartNumber'', JStr ''HMA84GR7CJR4N-XN''),
        (''SerialNumber'', JNull)]] \<and>
   parse_memory example_net ''https://10.48.143.80'' =
     Inr [\<lparr>c_manufacturer = JStr ''Samsung'', c_model = JStr ''M393A4K40DB3-CWE'',
            c_serial = JStr ''0123ABCD''\<rparr>,
          \<lparr>c_manufacturer = JStr [], c_model = JStr [], c_serial = JStr []\<rparr>,
          \<lparr>c_manufacturer = JNull, c_model = JStr ''HMA84GR7CJR4N-XN'', c_serial = JNull\<rparr>]"
proof -
  have k: "key_absent (JObj [(''Name'', JStr ''DIMM 3'')]) ''PartNumber''"
    by (simp add: key_absent_def)
  have f2: "fetch_member example_net ''https://10.48.143.80'' (JObj [(''@odata.id'', JStr ''/redfish/v1/Systems/1/Memory/2'')]) =
     Inr (JObj [(''Manufacturer'', JNull), (''PartNumber'', JNull), (''SerialNumber'', JNull)])"
    by (simp add: fetch_member_def get_http_response_body_def example_net_def)
  have f4: "fetch_member example_net ''https://10.48.143.80'' (JObj [(''@odata.id'', JStr ''/redfish/v1/Systems/1/Memory/4'')]) =
     Inr (JObj [(''Manufacturer'', JNull), (''PartNumber'', JStr ''HMA84GR7CJR4N-XN''),
        (''SerialNumber'', JNull)])"
    by (simp add: fetch_member_def get_http_response_body_def example_net_def)
  have g: "get_http_response_body example_net
      (''https://10.48.143.80'' @ ''/redfish/v1/Systems/1/Memory'') =
     Inr (JObj [(''Members'', JArr
     [JObj [(''@odata.id'', JStr ''/redfish/v1/Systems/1/Memory/1'')],
      JObj [(''@odata.id'', JStr ''/redfish/v1/Systems/1/Memory/2'')],
      JObj [(''@odata.id'', JStr ''/redfish/v1/Systems/1/Memory/3'')],
      JObj [(''@odata.id'', JStr ''/redfish/v1/Systems/1/Memory/4'')]])])"
    by (simp add: get_http_response_body_def example_net_def)
  have v: "item_or [(''Members'', JArr
     [JObj [(''@odata.id'', JStr ''/redfish/v1/Systems/1/Memory/1'')],
      JObj [(''@odata.id'', JStr ''/redfish/v1/Systems/1/Memory/2'')],
      JObj [(''@odata.id'', JStr ''/redfish/v1/Systems/1/Memory/3'')],
      JObj [(''@odata.id'', JStr ''/redfish/v1/Systems/1/Memory/4'')]])] ''Members'' (JArr []) = JArr
     [JObj [(''@odata.id'', JStr ''/redfish/v1/Systems/1/Memory/1'')],
      JObj [(''@odata.id'', JStr ''/redfish/v1/Systems/1/Memory/2'')],
      JObj [(''@odata.id'', JStr ''/redfish/v1/Systems/1/Memory/3'')],
      JObj [(''@odata.id'', JStr ''/redfish/v1/Systems/1/Memory/4'')]]"
    by (simp add: item_or_def)
  have l: "list_all2 (\<lambda>member items. fetch_member example_net ''https://10.48.143.80'' member =
       Inr (JObj items))
     [JObj [(''@odata.id'', JStr ''/redfish/v1/Systems/1/Memory/1'')],
      JObj [(''@odata.id'', JStr ''/redfish/v1/Systems/1/Memory/2'')],
      JObj [(''@odata.id'', JStr ''/redfish/v1/Systems/1/Memory/3'')],
      JObj [(''@odata.id'', JStr ''/redfish/v1/Systems/1/Memory/4'')]]
     [[(''Manufacturer'', JStr ''Samsung''), (''PartNumber'', JStr ''M393A4K40DB3-CWE''),
        (''SerialNumber'', JStr ''0123ABCD'')],
      [(''Manufacturer'', JNull), (''PartNumber'', JNull), (''SerialNumber'', JNull)],
      [],
      [(''Manufacturer'', JNull), (''PartNumber'', JStr ''HMA84GR7CJR4N-XN''),
        (''SerialNumber'', JNull)]]"
    by (simp add: fetch_member_def get_http_response_body_def example_net_def)
  note t1 = memory_slot_skip[where items = "[(''Manufacturer'', JNull), (''PartNumber'', JNull), (''SerialNumber'', JNull)]"
      and key = "''PartNumber''" and net = example_net and base_url = "''https://10.48.143.80''"
      and member = "JObj [(''@odata.id'', JStr ''/redfish/v1/Systems/1/Memory/2'')]"
      and ip = "''10.48.143.80''"
      and body_items = "[(''Members'', JArr
     [JObj [(''@odata.id'', JStr ''/redfish/v1/Systems/1/Memory/1'')],
      JObj [(''@odata.id'', JStr ''/redfish/v1/Systems/1/Memory/2'')],
      JObj [(''@odata.id'', JStr ''/redfish/v1/Systems/1/Memory/3'')],
      JObj [(''@odata.id'', JStr ''/redfish/v1/Systems/1/Memory/4'')]])]"
      and members = "[JObj [(''@odata.id'', JStr ''/redfish/v1/Systems/1/Memory/1'')],
      JObj [(''@odata.id'', JStr ''/redfish/v1/Systems/1/Memory/2'')],
      JObj [(''@odata.id'', JStr ''/redfish/v1/Systems/1/Memory/3'')],
      JObj [(''@odata.id'', JStr ''/redfish/v1/Systems/1/Memory/4'')]]"
      and bodies = "[[(''Manufacturer'', JStr ''Samsung''), (''PartNumber'', JStr ''M393A4K40DB3-CWE''),
        (''SerialNumber'', JStr ''0123ABCD'')],
      [(''Manufacturer'', JNull), (''PartNumber'', JNull), (''SerialNumber'', JNull)],
      [],
      [(''Manufacturer'', JNull), (''PartNumber'', JStr ''HMA84GR7CJR4N-XN''),
        (''SerialNumber'', JNull)]]"]
  note t2 = memory_slot_skip[where items = "[(''Manufacturer'', JStr ''Samsung''),
      (''PartNumber'', JNull), (''SerialNumber'', JStr ''0123ABCD'')]"]
  note t3 = memory_slot_skip[where items = "[(''Name'', JStr ''DIMM 3'')]"
      and key = "''PartNumber''" and net = example_net and ip = "''10.48.143.80''",
      unfolded example_components]
  note t4 = memory_slot_skip[where items = "[(''Manufacturer'', JNull), (''PartNumber'', JStr ''HMA84GR7CJR4N-XN''),
        (''SerialNumber'', JNull)]"
      and net = example_net and base_url = "''https://10.48.143.80''"
      and member = "JObj [(''@odata.id'', JStr ''/redfish/v1/Systems/1/Memory/4'')]"]
  have a: "memory_of_body (JObj [(''Manufacturer'', JNull), (''PartNumber'', JNull),
      (''SerialNumber'', JNull)]) = Inr []"
    using conjunct1[OF t1] by (simp add: item_or_def)
  have b: "memory_of_body (JObj [(''Manufacturer'', JStr ''Samsung''), (''PartNumber'', JNull),
      (''SerialNumber'', JStr ''0123ABCD'')]) =
     Inr [\<lparr>c_manufacturer = JStr ''Samsung'', c_model = JNull, c_serial = JStr ''0123ABCD''\<rparr>]"
    using conjunct1[OF t2] by (simp add: item_or_def)
  have c: "item_or [(''Name'', JStr ''DIMM 3'')] ''PartNumber'' (JStr []) = JStr []"
    using conjunct1[OF conjunct2[OF t3]] k by simp
  have d: "parse_memory example_net (''https://'' @ ''10.48.143.80'') =
     Inr [\<lparr>c_manufacturer = JStr ''Samsung'', c_model = JStr ''M393A4K40DB3-CWE'',
            c_serial = JStr ''0123ABCD''\<rparr>,
          \<lparr>c_manufacturer = JStr [], c_model = JStr [], c_serial = JStr []\<rparr>,
          \<lparr>c_manufacturer = JNull, c_model = JStr ''HMA84GR7CJR4N-XN'', c_serial = JNull\<rparr>]"
    using conjunct1[OF conjunct2[OF conjunct2[OF conjunct2[OF t3]]]] by simp
  have r2: "memory_record example_net ''https://10.48.143.80'' (JObj [(''@odata.id'', JStr ''/redfish/v1/Systems/1/Memory/2'')]) = Inr []"
    using mp[OF conjunct1[OF conjunct2[OF conjunct2[OF conjunct2[OF conjunct2[OF t1]]]]] f2]
    by (simp add: item_or_def)
  have r4: "memory_record example_net ''https://10.48.143.80'' (JObj [(''@odata.id'', JStr ''/redfish/v1/Systems/1/Memory/4'')]) =
     Inr [\<lparr>c_manufacturer = JNull, c_model = JStr ''HMA84GR7CJR4N-XN'', c_serial = JNull\<rparr>]"
    using mp[OF conjunct1[OF conjunct2[OF conjunct2[OF conjunct2[OF conjunct2[OF t4]]]]] f4]
    by (simp add: item_or_def)
  have e: "parse_memory example_net ''https://10.48.143.80'' =
     Inr [\<lparr>c_manufacturer = JStr ''Samsung'', c_model = JStr ''M393A4K40DB3-CWE'',
            c_serial = JStr ''0123ABCD''\<rparr>,
          \<lparr>c_manufacturer = JStr [], c_model = JStr [], c_serial = JStr []\<rparr>,
          \<lparr>c_manufacturer = JNull, c_model = JStr ''HMA84GR7CJR4N-XN'', c_serial = JNull\<rparr>]"
    using mp[OF conjunct2[OF conjunct2[OF conjunct2[OF conjunct2[OF conjunct2[OF conjunct2[OF t1]]]]]]
            conjI[OF g conjI[OF v l]]]
    by (simp add: item_or_def)
  from a b k c d f2 r2 f4 r4 l e show ?thesis by (intro conjI)
qed

text \<open>
  C3 as worded, with absent read as missing from the body, fails for a body that has
  neither key: both the part number and the serial are absent, and the body yields a
  record, with empty strings.
\<close>

theorem memory_slot_absent_keys_counterexample:
  "key_absent (JObj [(''Name'', JStr ''DIMM 3'')]) ''PartNumber'' \<and>
   key_absent (JObj [(''Name'', JStr ''DIMM 3'')]) ''SerialNumber'' \<and>
   memory_of_body (JObj [(''Name'', JStr ''DIMM 3'')]) =
     Inr [\<lparr>c_manufacturer = JStr [], c_model = JStr [], c_serial = JStr []\<rparr>]"
  by (simp add: key_absent_def memory_of_body_def)



end
